theory Spec2Isabelle
  imports Main
begin

section \<open>ModelNet dataset adapters (kaolin/datasets/modelnet.py)\<close>

text \<open>
  A shallow embedding of the three dataset classes of \<^verbatim>\<open>modelnet.py\<close>:
  \<^verbatim>\<open>ModelNet\<close>, \<^verbatim>\<open>ModelNetPointCloud\<close> and \<^verbatim>\<open>ModelNetVoxels\<close>.
  Exceptions are values of the type \<open>error\<close>; a call returns \<open>error + 'a\<close>.
  The file system, the libraries the module calls (kaolin's mesh class, torch, numpy,
  scipy, pdb) and the random and interactive state they read are parameters: the file
  system is a record \<open>fs\<close>, the libraries a record \<open>lib\<close>, and a world state of
  type \<open>'w\<close> is threaded through every library call that is random, reads a file or
  talks to the user.
\<close>

subsection \<open>Python values and exceptions\<close>

type_synonym path = string
type_synonym device = string

datatype error =
    ValueError string
  | AssertionError string
  | NameError string
  | UnboundLocalError string
  | IndexError string
  | KeyError string
  | NotImplementedError
  | OSError string
  | LibraryError string
  | BdbQuit

text \<open>
  The values an access can return. \<open>'m\<close> is a loaded mesh, \<open>'p\<close> one row of a point
  tensor, \<open>'v\<close> the contents of a voxel array. A tensor carries its device.
\<close>

datatype ('m, 'p, 'v) pyval =
    PyNone
  | PyStr string
  | PyMesh 'm
  | PyPoints "'p list" device
  | PyLongTensor "int list" device
  | PyFloatTensor 'v
  | PyTuple "('m, 'p, 'v) pyval list"
  | PyDict "(string \<times> ('m, 'p, 'v) pyval) list"

text \<open>\<^verbatim>\<open>xs[i]\<close> on a Python list: a negative index counts from the end.\<close>

definition py_index :: "'a list \<Rightarrow> int \<Rightarrow> error + 'a" where
  "py_index xs i =
     (if 0 \<le> i \<and> i < int (length xs) then Inr (xs ! nat i)
      else if i < 0 \<and> - int (length xs) \<le> i then Inr (xs ! nat (int (length xs) + i))
      else Inl (IndexError ''list index out of range''))"

text \<open>\<^verbatim>\<open>str(x)\<close> of an optional string, as \<^verbatim>\<open>'{0}'.format(x)\<close> prints it.\<close>

definition py_str :: "string option \<Rightarrow> string" where
  "py_str x = (case x of None \<Rightarrow> ''None'' | Some s \<Rightarrow> s)"

text \<open>
  \<^verbatim>\<open>repr\<close> of a list of strings, as \<^verbatim>\<open>format\<close> prints it (quotes inside a name
  are not escaped here; only error messages use it).
\<close>

fun py_repr_items :: "string list \<Rightarrow> string" where
  "py_repr_items [] = []"
| "py_repr_items [s] = [CHR 0x27] @ s @ [CHR 0x27]"
| "py_repr_items (s # t # ss) = [CHR 0x27] @ s @ [CHR 0x27] @ '', '' @ py_repr_items (t # ss)"

definition py_repr_list :: "string list \<Rightarrow> string" where
  "py_repr_list ss = ''['' @ py_repr_items ss @ '']''"

subsection \<open>The file system and the libraries\<close>

text \<open>
  \<open>iterdir d\<close> lists the entries of directory \<open>d\<close> as (name, is a directory), or fails
  when \<open>d\<close> cannot be listed. \<open>path_glob d pat\<close> is \<^verbatim>\<open>d.glob(pat)\<close>.
  \<open>os_path_exists\<close> and \<open>glob\<close> are the functions of the modules \<^verbatim>\<open>os\<close> and
  \<^verbatim>\<open>glob\<close>.
\<close>

record fs =
  iterdir :: "path \<Rightarrow> error + (string \<times> bool) list"
  path_glob :: "path \<Rightarrow> string \<Rightarrow> path list"
  os_path_exists :: "path \<Rightarrow> bool"
  glob :: "string \<Rightarrow> path list"

text \<open>\<^verbatim>\<open>a / b\<close> on \<^verbatim>\<open>pathlib.Path\<close>, for a relative component \<open>b\<close>.\<close>

definition pjoin :: "path \<Rightarrow> string \<Rightarrow> path" where
  "pjoin a b = a @ ''/'' @ b"

type_synonym ('w, 'm, 'p, 'v) transform =
  "'w \<Rightarrow> ('m, 'p, 'v) pyval \<Rightarrow> (error + ('m, 'p, 'v) pyval) \<times> 'w"

text \<open>
  The library calls of the module:
  \<^item> \<open>from_off\<close>: \<^verbatim>\<open>kal.rep.TriangleMesh.from_off(path)\<close>;
  \<^item> \<open>mesh_to\<close>: \<^verbatim>\<open>mesh.to(device)\<close>, which moves the mesh in place;
  \<^item> \<open>mesh_sample\<close>: the first component of \<^verbatim>\<open>mesh.sample(n)\<close>, a point tensor
    drawn at random from the surface;
  \<^item> \<open>device_ok\<close>: the devices \<^verbatim>\<open>tensor.to(device)\<close> accepts;
  \<^item> \<open>random_choice w a size replace\<close>: \<^verbatim>\<open>np.random.choice(a, size=size, replace=replace)\<close>;
  \<^item> \<open>pdb_set_trace\<close>: the interactive session opened by \<^verbatim>\<open>pdb.set_trace()\<close>,
    which the user ends by continuing or by quitting (\<open>BdbQuit\<close>);
  \<^item> \<open>loadmat\<close>: \<^verbatim>\<open>sio.loadmat(path)\<close>, a dictionary of arrays;
  \<^item> \<open>float_tensor\<close>: \<^verbatim>\<open>torch.FloatTensor(a.astype(float))\<close>;
  \<^item> \<open>sys_platform\<close>: \<^verbatim>\<open>sys.platform\<close>.
\<close>

record ('w, 'm, 'p, 'v) lib =
  from_off :: "'w \<Rightarrow> path \<Rightarrow> (error + 'm) \<times> 'w"
  mesh_to :: "'m \<Rightarrow> device \<Rightarrow> error + 'm"
  mesh_sample :: "'w \<Rightarrow> 'm \<Rightarrow> int \<Rightarrow> (error + 'p list \<times> device) \<times> 'w"
  device_ok :: "device \<Rightarrow> bool"
  random_choice :: "'w \<Rightarrow> nat \<Rightarrow> int \<Rightarrow> bool \<Rightarrow> (error + nat list) \<times> 'w"
  pdb_set_trace :: "'w \<Rightarrow> (error + unit) \<times> 'w"
  loadmat :: "'w \<Rightarrow> path \<Rightarrow> (error + (string \<times> 'v) list) \<times> 'w"
  float_tensor :: "'v \<Rightarrow> error + 'v"
  sys_platform :: string

text \<open>\<^verbatim>\<open>tensor.to(device)\<close>: the same rows on the new device.\<close>

definition tensor_to :: "('w, 'm, 'p, 'v) lib \<Rightarrow> 'a list \<times> device \<Rightarrow> device \<Rightarrow> error + 'a list \<times> device" where
  "tensor_to L t d =
     (if device_ok L d then Inr (fst t, d) else Inl (LibraryError ''invalid device''))"

subsection \<open>The directory scan shared by ModelNet and ModelNetPointCloud\<close>

text \<open>\<^verbatim>\<open>[d.name for d in basedir.iterdir() if d.is_dir()]\<close>\<close>

definition avail_categories :: "fs \<Rightarrow> path \<Rightarrow> error + string list" where
  "avail_categories F basedir =
     (case iterdir F basedir of
        Inl e \<Rightarrow> Inl e
      | Inr entries \<Rightarrow> Inr (map fst (filter snd entries)))"

text \<open>\<^verbatim>\<open>categories or avail_categories\<close>: \<^verbatim>\<open>None\<close> and the empty list are falsy.\<close>

definition categories_or :: "string list option \<Rightarrow> string list \<Rightarrow> string list" where
  "categories_or categories avail =
     (case categories of None \<Rightarrow> avail | Some cs \<Rightarrow> (if cs = [] then avail else cs))"

text \<open>
  The inner loop
  \<^verbatim>\<open>for path in catdir.glob('*.off'): self.paths.append(path); self.labels.append(idx)\<close>
\<close>

fun append_matches :: "int \<Rightarrow> path list \<Rightarrow> path list \<times> int list \<Rightarrow> path list \<times> int list" where
  "append_matches idx [] acc = acc"
| "append_matches idx (p # rest) (ps, ls) = append_matches idx rest (ps @ [p], ls @ [idx])"

text \<open>The message of the \<^verbatim>\<open>ValueError\<close> raised at lines 78 and 137.\<close>

definition invalid_class_message :: "string \<Rightarrow> string list \<Rightarrow> string" where
  "invalid_class_message cat avail =
     ''Invalid ModelNet class '' @ cat @ ''. Valid classes  are '' @ py_repr_list avail"

text \<open>
  The outer loop \<^verbatim>\<open>for idx, cat in enumerate(self.categories)\<close>, from position
  \<open>idx\<close> on, with the paths and labels collected so far.
\<close>

fun scan_categories ::
  "fs \<Rightarrow> path \<Rightarrow> string \<Rightarrow> string list \<Rightarrow> int \<Rightarrow> string list \<Rightarrow>
   path list \<times> int list \<Rightarrow> error + path list \<times> int list" where
  "scan_categories F basedir spl avail idx [] acc = Inr acc"
| "scan_categories F basedir spl avail idx (cat # cats) acc =
     (if cat \<notin> set avail
      then Inl (ValueError (invalid_class_message cat avail))
      else scan_categories F basedir spl avail (idx + 1) cats
             (append_matches idx (path_glob F (pjoin (pjoin basedir cat) spl) ''*.off'') acc))"

text \<open>The messages of the \<^verbatim>\<open>ValueError\<close>s raised at lines 62, 65 and 124.\<close>

definition invalid_rep_message :: "string option \<Rightarrow> string" where
  "invalid_rep_message rep =
     ''Argument 'rep' must be one of 'mesh'  or 'pointcloud'. Got '' @ py_str rep @ '' instead.''"

definition invalid_split_message :: "string option \<Rightarrow> string" where
  "invalid_split_message spl =
     ''Argument 'split' must be one of 'train'  or 'test'. Got '' @ py_str spl @ '' instead.''"

subsection \<open>ModelNet\<close>

record ('w, 'm, 'p, 'v) ModelNet =
  mn_categories :: "string list"
  mn_paths :: "path list"
  mn_labels :: "int list"
  mn_rep :: string
  mn_device :: device
  mn_transform :: "('w, 'm, 'p, 'v) transform option"
  mn_num_points :: int

text \<open>\<^verbatim>\<open>kwargs.get('num_points', 1024)\<close>\<close>

definition kwargs_num_points :: "(string \<times> int) list \<Rightarrow> int" where
  "kwargs_num_points kwargs = (case map_of kwargs ''num_points'' of None \<Rightarrow> 1024 | Some n \<Rightarrow> n)"

definition ModelNet_init ::
  "fs \<Rightarrow> path \<Rightarrow> string option \<Rightarrow> string option \<Rightarrow> string list option \<Rightarrow> device \<Rightarrow>
   ('w, 'm, 'p, 'v) transform option \<Rightarrow> (string \<times> int) list \<Rightarrow>
   error + ('w, 'm, 'p, 'v) ModelNet" where
  "ModelNet_init F basedir rep spl categories dev transform kwargs =
     (if rep \<notin> set [Some ''mesh'', Some ''pointcloud'']
      then Inl (ValueError (invalid_rep_message rep))
      else if spl \<notin> set [Some ''train'', Some ''test'']
      then Inl (ValueError (invalid_split_message spl))
      else case avail_categories F basedir of
        Inl e \<Rightarrow> Inl e
      | Inr avail \<Rightarrow>
          (let cats = categories_or categories avail in
           case scan_categories F basedir (the spl) avail 0 cats ([], []) of
             Inl e \<Rightarrow> Inl e
           | Inr (ps, ls) \<Rightarrow>
               Inr \<lparr> mn_categories = cats, mn_paths = ps, mn_labels = ls, mn_rep = the rep,
                     mn_device = dev, mn_transform = transform,
                     mn_num_points = kwargs_num_points kwargs \<rparr>))"

definition ModelNet_len :: "('w, 'm, 'p, 'v) ModelNet \<Rightarrow> int" where
  "ModelNet_len self = int (length (mn_paths self))"




subsection \<open>ModelNetPointCloud\<close>

record ('w, 'm, 'p, 'v) ModelNetPointCloud =
  pc_categories :: "string list"
  pc_paths :: "path list"
  pc_labels :: "int list"
  pc_device :: device
  pc_transform :: "('w, 'm, 'p, 'v) transform option"
  pc_num_points :: int
  pc_sample_points :: int
  pc_sample_cache :: "int \<rightharpoonup> 'p list \<times> device"

definition ModelNetPointCloud_init ::
  "fs \<Rightarrow> path \<Rightarrow> string option \<Rightarrow> string list option \<Rightarrow> device \<Rightarrow>
   ('w, 'm, 'p, 'v) transform option \<Rightarrow> int \<Rightarrow> int \<Rightarrow>
   error + ('w, 'm, 'p, 'v) ModelNetPointCloud" where
  "ModelNetPointCloud_init F basedir spl categories dev transform num_points sample_points =
     (if spl \<notin> set [Some ''train'', Some ''test'']
      then Inl (ValueError (invalid_split_message spl))
      else case avail_categories F basedir of
        Inl e \<Rightarrow> Inl e
      | Inr avail \<Rightarrow>
          (let cats = categories_or categories avail in
           case scan_categories F basedir (the spl) avail 0 cats ([], []) of
             Inl e \<Rightarrow> Inl e
           | Inr (ps, ls) \<Rightarrow>
               Inr \<lparr> pc_categories = cats, pc_paths = ps, pc_labels = ls,
                     pc_device = dev, pc_transform = transform,
                     pc_num_points = num_points, pc_sample_points = sample_points,
                     pc_sample_cache = Map.empty \<rparr>))"

definition ModelNetPointCloud_len :: "('w, 'm, 'p, 'v) ModelNetPointCloud \<Rightarrow> int" where
  "ModelNetPointCloud_len self = int (length (pc_paths self))"

text \<open>\<^verbatim>\<open>full_pts[idxs, :]\<close>: the rows at the chosen positions.\<close>

definition take_rows :: "'p list \<Rightarrow> nat list \<Rightarrow> error + 'p list" where
  "take_rows rows idxs =
     (if list_all (\<lambda>i. i < length rows) idxs then Inr (map (\<lambda>i. rows ! i) idxs)
      else Inl (IndexError ''index out of range''))"

text \<open>
  The state in which the \<^verbatim>\<open>try\<close> block of \<^verbatim>\<open>__getitem__\<close> is left: the exception
  raised inside it, if any; the local variable \<^verbatim>\<open>pts\<close>, if it has been assigned;
  the cache; the world.
\<close>

record ('w, 'm, 'p, 'v) try_state =
  raised :: "error option"
  pts_local :: "('m, 'p, 'v) pyval option"
  cache_after :: "int \<rightharpoonup> 'p list \<times> device"
  world_after :: 'w

text \<open>Lines 164 to 170: downsample \<open>full_pts\<close>, move to the device, transform.\<close>

definition downsample ::
  "('w, 'm, 'p, 'v) lib \<Rightarrow> ('w, 'm, 'p, 'v) ModelNetPointCloud \<Rightarrow> 'p list \<times> device \<Rightarrow>
   (int \<rightharpoonup> 'p list \<times> device) \<Rightarrow> 'w \<Rightarrow> ('w, 'm, 'p, 'v) try_state" where
  "downsample L self full_pts cache w =
     (case random_choice L w (length (fst full_pts)) (pc_num_points self) False of
        (Inl e, w1) \<Rightarrow>
          \<lparr> raised = Some e, pts_local = None, cache_after = cache, world_after = w1 \<rparr>
      | (Inr idxs, w1) \<Rightarrow>
         (case take_rows (fst full_pts) idxs of
            Inl e \<Rightarrow>
              \<lparr> raised = Some e, pts_local = None, cache_after = cache, world_after = w1 \<rparr>
          | Inr rows \<Rightarrow>
             (case tensor_to L (rows, snd full_pts) (pc_device self) of
                Inl e \<Rightarrow>
                  \<lparr> raised = Some e, pts_local = Some (PyPoints rows (snd full_pts)),
                    cache_after = cache, world_after = w1 \<rparr>
              | Inr pts \<Rightarrow>
                 (case pc_transform self of
                    None \<Rightarrow>
                      \<lparr> raised = None, pts_local = Some (PyPoints (fst pts) (snd pts)),
                        cache_after = cache, world_after = w1 \<rparr>
                  | Some f \<Rightarrow>
                     (case f w1 (PyPoints (fst pts) (snd pts)) of
                        (Inl e, w2) \<Rightarrow>
                          \<lparr> raised = Some e, pts_local = Some (PyPoints (fst pts) (snd pts)),
                            cache_after = cache, world_after = w2 \<rparr>
                      | (Inr x, w2) \<Rightarrow>
                          \<lparr> raised = None, pts_local = Some x,
                            cache_after = cache, world_after = w2 \<rparr>)))))"

text \<open>The whole \<^verbatim>\<open>try\<close> block, lines 157 to 170.\<close>

definition try_block ::
  "('w, 'm, 'p, 'v) lib \<Rightarrow> ('w, 'm, 'p, 'v) ModelNetPointCloud \<Rightarrow> int \<Rightarrow> 'w \<Rightarrow>
   ('w, 'm, 'p, 'v) try_state" where
  "try_block L self idx w =
     (case pc_sample_cache self idx of
        None \<Rightarrow>
         (case py_index (pc_paths self) idx of
            Inl e \<Rightarrow>
              \<lparr> raised = Some e, pts_local = None,
                cache_after = pc_sample_cache self, world_after = w \<rparr>
          | Inr p \<Rightarrow>
             (case from_off L w p of
                (Inl e, w1) \<Rightarrow>
                  \<lparr> raised = Some e, pts_local = None,
                    cache_after = pc_sample_cache self, world_after = w1 \<rparr>
              | (Inr mesh, w1) \<Rightarrow>
                 (case mesh_sample L w1 mesh (pc_sample_points self) of
                    (Inl e, w2) \<Rightarrow>
                      \<lparr> raised = Some e, pts_local = None,
                        cache_after = pc_sample_cache self, world_after = w2 \<rparr>
                  | (Inr full_pts, w2) \<Rightarrow>
                      downsample L self full_pts ((pc_sample_cache self)(idx \<mapsto> full_pts)) w2)))
      | Some full_pts \<Rightarrow> downsample L self full_pts (pc_sample_cache self) w)"

text \<open>
  What one call of \<^verbatim>\<open>__getitem__\<close> leaves behind: the value returned or the exception
  that reaches the caller, the object, the world, and whether the handler
  \<^verbatim>\<open>except: import pdb; pdb.set_trace()\<close> was entered.
\<close>

record ('w, 'm, 'p, 'v) access =
  result :: "error + ('m, 'p, 'v) pyval"
  self_after :: "('w, 'm, 'p, 'v) ModelNetPointCloud"
  world :: 'w
  debugger_entered :: bool

text \<open>
  \<^verbatim>\<open>return pts\<close>, after the \<^verbatim>\<open>try\<close> statement: reading a local variable that was
  never assigned raises \<^verbatim>\<open>UnboundLocalError\<close>.
\<close>

definition unbound_pts_message :: string where
  "unbound_pts_message = ''local variable 'pts' referenced before assignment''"

definition return_pts :: "('m, 'p, 'v) pyval option \<Rightarrow> error + ('m, 'p, 'v) pyval" where
  "return_pts pts =
     (case pts of
        None \<Rightarrow> Inl (UnboundLocalError unbound_pts_message)
      | Some x \<Rightarrow> Inr x)"

definition ModelNetPointCloud_getitem ::
  "('w, 'm, 'p, 'v) lib \<Rightarrow> ('w, 'm, 'p, 'v) ModelNetPointCloud \<Rightarrow> int \<Rightarrow> 'w \<Rightarrow>
   ('w, 'm, 'p, 'v) access" where
  "ModelNetPointCloud_getitem L self idx w =
     (let t = try_block L self idx w;
          self' = self\<lparr> pc_sample_cache := cache_after t \<rparr>
      in case raised t of
           None \<Rightarrow>
             \<lparr> result = return_pts (pts_local t), self_after = self',
               world = world_after t, debugger_entered = False \<rparr>
         | Some e \<Rightarrow>
            (case pdb_set_trace L (world_after t) of
               (Inl q, w') \<Rightarrow>
                 \<lparr> result = Inl q, self_after = self', world = w', debugger_entered = True \<rparr>
             | (Inr u, w') \<Rightarrow>
                 \<lparr> result = return_pts (pts_local t), self_after = self',
                   world = w', debugger_entered = True \<rparr>))"

text \<open>A sequence of accesses on one object, oldest first; the results are dropped.\<close>

fun accesses ::
  "('w, 'm, 'p, 'v) lib \<Rightarrow> ('w, 'm, 'p, 'v) ModelNetPointCloud \<Rightarrow> int list \<Rightarrow> 'w \<Rightarrow>
   ('w, 'm, 'p, 'v) ModelNetPointCloud \<times> 'w" where
  "accesses L self [] w = (self, w)"
| "accesses L self (idx # idxs) w =
     (let a = ModelNetPointCloud_getitem L self idx w
      in accesses L (self_after a) idxs (world a))"

subsection \<open>ModelNetVoxels\<close>

text \<open>
  The names bound in the module's global namespace when a constructor runs: the names
  imported at lines 15 to 23 and the names the module defines. A name that is neither
  here nor a builtin raises \<^verbatim>\<open>NameError\<close> when it is read.
\<close>

definition module_globals :: "string list" where
  "module_globals =
     [''Callable'', ''Iterable'', ''Optional'', ''Union'', ''torch'', ''sys'', ''Path'',
      ''sio'', ''np'', ''kal'', ''_MODELNET10_CLASSES'', ''ModelNet'', ''ModelNetPointCloud'',
      ''ModelNetVoxels'']"

definition name_error_message :: "string \<Rightarrow> string" where
  "name_error_message n = ''name '' @ [CHR 0x27] @ n @ [CHR 0x27] @ '' is not defined''"

definition load_global :: "string list \<Rightarrow> string \<Rightarrow> error + unit" where
  "load_global G n =
     (if n \<in> set G then Inr () else Inl (NameError (name_error_message n)))"

text \<open>\<^verbatim>\<open>os.path.basename\<close> and \<^verbatim>\<open>os.path.dirname\<close> of \<^verbatim>\<open>posixpath\<close>.\<close>

definition os_path_basename :: "string \<Rightarrow> string" where
  "os_path_basename p = rev (takeWhile (\<lambda>c. c \<noteq> CHR ''/'') (rev p))"

definition os_path_dirname :: "string \<Rightarrow> string" where
  "os_path_dirname p =
     (let head = rev (dropWhile (\<lambda>c. c \<noteq> CHR ''/'') (rev p))
      in if head \<noteq> [] \<and> \<not> list_all (\<lambda>c. c = CHR ''/'') head
         then rev (dropWhile (\<lambda>c. c = CHR ''/'') (rev head))
         else head)"

record ModelNetVoxels =
  vx_names :: "path list"

text \<open>
  \<^verbatim>\<open>root + '/ModelNet/volumetric_data/{0}/*/{1}/*{2}.mat'.format(category, part, side)\<close>:
  only the literal is formatted.
\<close>

definition mat_pattern :: "string \<Rightarrow> string \<Rightarrow> string \<Rightarrow> string \<Rightarrow> string" where
  "mat_pattern root category part side =
     root @ ''/ModelNet/volumetric_data/'' @ category @ ''/*/'' @ part @ ''/*'' @ side @ ''.mat''"

text \<open>The messages of the assertions at lines 207, 208 and 219.\<close>

definition not_found_message :: string where
  "not_found_message = ''ModelNet is not found, and download is set to False''"


definition either_message :: string where
  "either_message = ''either train or test must be set to True''"

definition unknown_class_message :: "string \<Rightarrow> string list \<Rightarrow> string" where
  "unknown_class_message category all_classes =
     ''object class '' @ category @ '' not in list of availible classes: ''
     @ py_repr_list all_classes"

text \<open>The loop \<^verbatim>\<open>for category in categories\<close>, with the names collected so far.\<close>

fun voxel_scan ::
  "fs \<Rightarrow> string \<Rightarrow> bool \<Rightarrow> bool \<Rightarrow> string \<Rightarrow> string list \<Rightarrow> string list \<Rightarrow> path list \<Rightarrow>
   error + path list" where
  "voxel_scan F root train test side all_classes [] names = Inr names"
| "voxel_scan F root train test side all_classes (category # rest) names =
     (if category \<notin> set all_classes
      then Inl (AssertionError (unknown_class_message category all_classes))
      else
        (let names1 = (if train then names @ glob F (mat_pattern root category ''train'' side)
                       else names);
             names2 = (if test then names1 @ glob F (mat_pattern root category ''test'' side)
                       else names1)
         in voxel_scan F root train test side all_classes rest names2))"

text \<open>
  The constructor, in a module whose global namespace binds the names \<open>G\<close>. The names
  \<^verbatim>\<open>os\<close> (line 206) and \<^verbatim>\<open>glob\<close> (line 216) are read from it. The two assertions
  of lines 207 and 208 run, in this order, only when the directory does not exist.
\<close>

definition ModelNetVoxels_init ::
  "string list \<Rightarrow> fs \<Rightarrow> string \<Rightarrow> bool \<Rightarrow> bool \<Rightarrow> bool \<Rightarrow> string list \<Rightarrow> bool \<Rightarrow>
   error + ModelNetVoxels" where
  "ModelNetVoxels_init G F root train test download categories single_view =
     (case load_global G ''os'' of
        Inl e \<Rightarrow> Inl e
      | Inr u \<Rightarrow>
         (if \<not> os_path_exists F (root @ ''/ModelNet/'') \<and> \<not> download
          then Inl (AssertionError not_found_message)
          else if \<not> os_path_exists F (root @ ''/ModelNet/'') \<and> \<not> (train \<or> test)
          then Inl (AssertionError either_message)
          else
            (let side = (if \<not> single_view then [] else ''_1'') in
             case load_global G ''glob'' of
               Inl e \<Rightarrow> Inl e
             | Inr u \<Rightarrow>
                (let all_classes =
                       map (\<lambda>c. os_path_basename (os_path_dirname c))
                           (glob F (root @ ''/ModelNet/volumetric_data/*/''))
                 in case voxel_scan F root train test side all_classes categories [] of
                      Inl e \<Rightarrow> Inl e
                    | Inr names \<Rightarrow> Inr \<lparr> vx_names = names \<rparr>))))"

definition ModelNetVoxels_len :: "ModelNetVoxels \<Rightarrow> int" where
  "ModelNetVoxels_len self = int (length (vx_names self))"




subsection \<open>What the claims speak about\<close>

text \<open>The files matched by \<^verbatim>\<open>(basedir / cat / split).glob('*.off')\<close>.\<close>

definition catdir_matches :: "fs \<Rightarrow> path \<Rightarrow> string \<Rightarrow> string \<Rightarrow> path list" where
  "catdir_matches F basedir spl cat = path_glob F (pjoin (pjoin basedir cat) spl) ''*.off''"

text \<open>
  The positional labelling of the specification: every file matched for the category at
  position \<open>i\<close> of the list, paired with the label \<open>i\<close>, in the order of the list.
\<close>

definition positional_index :: "fs \<Rightarrow> path \<Rightarrow> string \<Rightarrow> string list \<Rightarrow> (path \<times> int) list" where
  "positional_index F basedir spl cats =
     concat (map (\<lambda>(i, c). map (\<lambda>p. (p, int i)) (catdir_matches F basedir spl c))
                 (enumerate 0 cats))"

text \<open>The files matched for one category by the two \<^verbatim>\<open>glob\<close> calls of lines 221 to 226.\<close>

definition mat_matches :: "fs \<Rightarrow> string \<Rightarrow> bool \<Rightarrow> bool \<Rightarrow> string \<Rightarrow> string \<Rightarrow> path list" where
  "mat_matches F root train test side category =
     (if train then glob F (mat_pattern root category ''train'' side) else []) @
     (if test then glob F (mat_pattern root category ''test'' side) else [])"



text \<open>
  The access \<open>a\<close> went through the handler \<^verbatim>\<open>except: import pdb; pdb.set_trace()\<close>
  entered in the world \<open>wt\<close> with the local variable \<^verbatim>\<open>pts\<close> bound as \<open>pts\<close> says:
  the debugger session took place there, the world of the access is the one the session
  left, and the access ends as the session ends, by the session's own exception or by
  \<^verbatim>\<open>return pts\<close>. The exception that entered the handler does not occur in it.
\<close>

definition went_through_handler ::
  "('w, 'm, 'p, 'v) lib \<Rightarrow> 'w \<Rightarrow> ('m, 'p, 'v) pyval option \<Rightarrow> ('w, 'm, 'p, 'v) access \<Rightarrow> bool" where
  "went_through_handler L wt pts a =
     (debugger_entered a \<and> world a = snd (pdb_set_trace L wt) \<and>
      result a = (case fst (pdb_set_trace L wt) of Inl q \<Rightarrow> Inl q | Inr u \<Rightarrow> return_pts pts))"

text \<open>
  The access of \<open>idx\<close> started in the world \<open>w\<close> reaches line 165 in the world \<open>w0\<close>
  with \<^verbatim>\<open>full_pts\<close> bound to \<open>full_pts\<close>: the index was cached, or it was not and the
  mesh was loaded and sampled.
\<close>

definition reaches_downsampling ::
  "('w, 'm, 'p, 'v) lib \<Rightarrow> ('w, 'm, 'p, 'v) ModelNetPointCloud \<Rightarrow> int \<Rightarrow> 'w \<Rightarrow>
   'p list \<times> device \<Rightarrow> 'w \<Rightarrow> bool" where
  "reaches_downsampling L self idx w full_pts w0 =
     ((pc_sample_cache self idx = Some full_pts \<and> w0 = w) \<or>
      (pc_sample_cache self idx = None \<and>
       (\<exists>p mesh w1. py_index (pc_paths self) idx = Inr p \<and> from_off L w p = (Inr mesh, w1) \<and>
                    mesh_sample L w1 mesh (pc_sample_points self) = (Inr full_pts, w0))))"

subsection \<open>A small data set for concrete runs\<close>

text \<open>
  A root \<^verbatim>\<open>/d\<close> with the category directories \<^verbatim>\<open>chair\<close> (two training meshes) and
  \<^verbatim>\<open>sofa\<close> (one), a plain file \<^verbatim>\<open>notes\<close>, and one voxel file.
\<close>

definition demo_fs :: fs where
  "demo_fs =
     \<lparr> iterdir = (\<lambda>d. if d = ''/d''
                        then Inr [(''chair'', True), (''notes'', False), (''sofa'', True)]
                        else Inl (OSError ''No such file or directory'')),
       path_glob = (\<lambda>d pat.
          if d = ''/d/chair/train'' \<and> pat = ''*.off'' then [''ca.off'', ''cb.off'']
          else if d = ''/d/sofa/train'' \<and> pat = ''*.off'' then [''sc.off'']
          else []),
       os_path_exists = (\<lambda>p. p = ''/d/ModelNet/''),
       glob = (\<lambda>pat.
          if pat = ''/d/ModelNet/volumetric_data/*/'' then [''/d/ModelNet/volumetric_data/chair/'']
          else if pat = ''/d/ModelNet/volumetric_data/chair/*/train/*_1.mat''
          then [''/d/ModelNet/volumetric_data/chair/30/train/x_1.mat'']
          else []) \<rparr>"

text \<open>
  Libraries for it. The world is a counter that every random draw advances, so that two
  samplings of one mesh differ, and that a debugger session advances by 100, so that a
  session shows in the world. The mesh file \<^verbatim>\<open>cb.off\<close> is corrupt.
  \<open>random_choice\<close> fails as numpy does when more rows are asked for than there are.
\<close>

definition demo_lib :: "(nat, string, int, int) lib" where
  "demo_lib =
     \<lparr> from_off = (\<lambda>w p. if p = ''cb.off'' then (Inl (LibraryError ''bad OFF file''), w)
                          else (Inr p, w)),
       mesh_to = (\<lambda>m d. Inr m),
       mesh_sample = (\<lambda>w m n.
          if n < 0 then (Inl (LibraryError ''negative number of samples''), w)
          else (Inr (map (\<lambda>i. int i + 10 * int w) [0..<nat n], ''cpu''), Suc w)),
       device_ok = (\<lambda>d. d = ''cpu''),
       random_choice = (\<lambda>w a size replace.
          if size < 0 \<or> (\<not> replace \<and> a < nat size)
          then (Inl (ValueError ''Cannot take a larger sample than population''), w)
          else (Inr (rev [a - nat size..<a]), Suc w)),
       pdb_set_trace = (\<lambda>w. (Inr (), w + 100)),
       loadmat = (\<lambda>w p. (Inr [(''instance'', 7)], w)),
       float_tensor = (\<lambda>a. Inr a),
       sys_platform = ''linux'' \<rparr>"

definition demo_ModelNet :: "(nat, string, int, int) ModelNet" where
  "demo_ModelNet =
     \<lparr> mn_categories = [''chair'', ''sofa''], mn_paths = [''ca.off'', ''cb.off'', ''sc.off''],
       mn_labels = [0, 0, 1], mn_rep = ''mesh'', mn_device = ''cpu'', mn_transform = None,
       mn_num_points = 1024 \<rparr>"

definition demo_PointCloud :: "int \<Rightarrow> int \<Rightarrow> (nat, string, int, int) ModelNetPointCloud" where
  "demo_PointCloud num_points sample_points =
     \<lparr> pc_categories = [''chair'', ''sofa''], pc_paths = [''ca.off'', ''cb.off'', ''sc.off''],
       pc_labels = [0, 0, 1], pc_device = ''cpu'', pc_transform = None,
       pc_num_points = num_points, pc_sample_points = sample_points,
       pc_sample_cache = Map.empty \<rparr>"

definition demo_Voxels :: ModelNetVoxels where
  "demo_Voxels = \<lparr> vx_names = [''/d/ModelNet/volumetric_data/chair/30/train/x_1.mat''] \<rparr>"

text \<open>
  What numpy documents for \<^verbatim>\<open>np.random.choice(a, size=size, replace=False)\<close> with
  \<open>0 \<le> size \<le> a\<close>: it returns \<open>size\<close> distinct positions below \<open>a\<close>.
\<close>

definition choice_without_replacement :: "('w, 'm, 'p, 'v) lib \<Rightarrow> bool" where
  "choice_without_replacement L =
     (\<forall>w a size. 0 \<le> size \<and> nat size \<le> a \<longrightarrow>
        (\<exists>idxs w'. random_choice L w a size False = (Inr idxs, w') \<and>
                    distinct idxs \<and> length idxs = nat size \<and> (\<forall>i \<in> set idxs. i < a)))"

section \<open>Properties\<close>

subsection \<open>The directory scan\<close>

lemma append_matches_eq:
  "append_matches idx ms (ps, ls) = (ps @ ms, ls @ replicate (length ms) idx)"
  by (induction ms arbitrary: ps ls) (simp_all add: replicate_app_Cons_same)

lemma zip_replicate_same: "zip ms (replicate (length ms) i) = map (\<lambda>p. (p, i)) ms"
  by (induction ms) simp_all

lemma scan_categories_Inr:
  "scan_categories F b s avail (int n) cats (ps, ls) = Inr (ps', ls') \<Longrightarrow>
   set cats \<subseteq> set avail \<and>
   ps' = ps @ concat (map (catdir_matches F b s) cats) \<and>
   ls' = ls @ concat (map (\<lambda>(i, c). replicate (length (catdir_matches F b s c)) (int i))
                          (enumerate n cats))"
proof (induction cats arbitrary: n ps ls)
  case Nil
  then show ?case by simp
next
  case (Cons c cs)
  from Cons.prems have c: "c \<in> set avail" by (auto split: if_splits)
  let ?m = "catdir_matches F b s c"
  from Cons.prems c have
    "scan_categories F b s avail (int (Suc n)) cs (ps @ ?m, ls @ replicate (length ?m) (int n))
     = Inr (ps', ls')"
    by (simp add: append_matches_eq catdir_matches_def add.commute)
  from Cons.IH[OF this] c show ?case
    by simp
qed

lemma scan_categories_Inl:
  "c \<in> set cats \<Longrightarrow> c \<notin> set avail \<Longrightarrow>
   \<exists>bad. bad \<in> set cats \<and> bad \<notin> set avail \<and>
     scan_categories F b s avail idx cats acc = Inl (ValueError (invalid_class_message bad avail))"
proof (induction cats arbitrary: idx acc)
  case Nil
  then show ?case by simp
next
  case (Cons x xs)
  show ?case
  proof (cases "x \<in> set avail")
    case True
    with Cons.prems have "c \<in> set xs" by auto
    from Cons.IH[OF this Cons.prems(2)]
    obtain bad where "bad \<in> set xs" "bad \<notin> set avail"
      "scan_categories F b s avail (idx + 1) xs
         (append_matches idx (path_glob F (pjoin (pjoin b x) s) ''*.off'') acc)
       = Inl (ValueError (invalid_class_message bad avail))"
      by blast
    with True show ?thesis by (intro exI[of _ bad]) simp
  next
    case False
    then show ?thesis by (intro exI[of _ x]) simp
  qed
qed

lemma scan_categories_total:
  "set cats \<subseteq> set avail \<Longrightarrow> \<exists>r. scan_categories F b s avail idx cats acc = Inr r"
  by (induction cats arbitrary: idx acc) simp_all

lemma zip_labelled:
  "length ps = length ls \<Longrightarrow>
   zip (ps @ concat (map (catdir_matches F b s) cats))
       (ls @ concat (map (\<lambda>(i, c). replicate (length (catdir_matches F b s c)) (int i))
                         (enumerate n cats)))
   = zip ps ls @ concat (map (\<lambda>(i, c). map (\<lambda>p. (p, int i)) (catdir_matches F b s c))
                             (enumerate n cats))"
proof (induction cats arbitrary: n ps ls)
  case Nil
  then show ?case by simp
next
  case (Cons c cs)
  let ?m = "catdir_matches F b s c"
  have "length (ps @ ?m) = length (ls @ replicate (length ?m) (int n))"
    using Cons.prems by simp
  from Cons.IH[OF this, of "Suc n"] Cons.prems show ?case
    by (simp add: zip_replicate_same)
qed

lemma labels_length:
  "length (concat (map (\<lambda>(i, c). replicate (length (catdir_matches F b s c)) (int i))
                       (enumerate n cats)))
   = length (concat (map (catdir_matches F b s) cats))"
  by (induction cats arbitrary: n) simp_all

lemma scan_from_empty:
  assumes "scan_categories F b s avail 0 cats ([], []) = Inr (ps, ls)"
  shows "set cats \<subseteq> set avail"
    and "ps = concat (map (catdir_matches F b s) cats)"
    and "zip ps ls = positional_index F b s cats"
    and "length ls = length ps"
proof -
  from assms have "scan_categories F b s avail (int 0) cats ([], []) = Inr (ps, ls)" by simp
  from scan_categories_Inr[OF this]
  have a: "set cats \<subseteq> set avail"
    and p: "ps = concat (map (catdir_matches F b s) cats)"
    and l: "ls = concat (map (\<lambda>(i, c). replicate (length (catdir_matches F b s c)) (int i))
                             (enumerate 0 cats))"
    by simp_all
  show "set cats \<subseteq> set avail" by (rule a)
  show "ps = concat (map (catdir_matches F b s) cats)" by (rule p)
  have "zip ([] @ concat (map (catdir_matches F b s) cats))
            ([] @ concat (map (\<lambda>(i, c). replicate (length (catdir_matches F b s c)) (int i))
                             (enumerate 0 cats)))
        = zip [] [] @ positional_index F b s cats"
    unfolding positional_index_def by (rule zip_labelled) simp
  with p l show z: "zip ps ls = positional_index F b s cats" by simp
  show "length ls = length ps" unfolding p l by (rule labels_length)
qed

subsection \<open>Construction\<close>

lemma ModelNet_init_Inr:
  assumes "ModelNet_init F b rep spl cats d t k = Inr self"
  obtains r s avail where "rep = Some r" "spl = Some s"
    "r \<in> {''mesh'', ''pointcloud''}" "s \<in> {''train'', ''test''}"
    "avail_categories F b = Inr avail"
    "mn_categories self = categories_or cats avail"
    "scan_categories F b s avail 0 (categories_or cats avail) ([], [])
       = Inr (mn_paths self, mn_labels self)"
    "mn_rep self = r"
proof -
  from assms have r: "rep \<in> {Some ''mesh'', Some ''pointcloud''}"
    and s: "spl \<in> {Some ''train'', Some ''test''}"
    unfolding ModelNet_init_def by (auto split: if_splits)
  from assms r s obtain avail where a: "avail_categories F b = Inr avail"
    unfolding ModelNet_init_def by (auto split: sum.splits)
  from assms r s a obtain ps ls where
    sc: "scan_categories F b (the spl) avail 0 (categories_or cats avail) ([], []) = Inr (ps, ls)"
    unfolding ModelNet_init_def Let_def by (auto split: sum.splits)
  from assms r s a sc have self: "mn_categories self = categories_or cats avail"
    "mn_paths self = ps" "mn_labels self = ls" "mn_rep self = the rep"
    unfolding ModelNet_init_def Let_def by auto
  from r s a sc self show thesis
    by (intro that[of "the rep" "the spl" avail]) auto
qed

lemma ModelNetPointCloud_init_Inr:
  assumes "ModelNetPointCloud_init F b spl cats d t n m = Inr self"
  obtains s avail where "spl = Some s" "s \<in> {''train'', ''test''}"
    "avail_categories F b = Inr avail"
    "pc_categories self = categories_or cats avail"
    "scan_categories F b s avail 0 (categories_or cats avail) ([], [])
       = Inr (pc_paths self, pc_labels self)"
    "pc_sample_cache self = Map.empty" "pc_num_points self = n" "pc_sample_points self = m"
proof -
  from assms have s: "spl \<in> {Some ''train'', Some ''test''}"
    unfolding ModelNetPointCloud_init_def by (auto split: if_splits)
  from assms s obtain avail where a: "avail_categories F b = Inr avail"
    unfolding ModelNetPointCloud_init_def by (auto split: sum.splits)
  from assms s a obtain ps ls where
    sc: "scan_categories F b (the spl) avail 0 (categories_or cats avail) ([], []) = Inr (ps, ls)"
    unfolding ModelNetPointCloud_init_def Let_def by (auto split: sum.splits)
  from assms s a sc have self: "pc_categories self = categories_or cats avail"
    "pc_paths self = ps" "pc_labels self = ls" "pc_sample_cache self = Map.empty"
    "pc_num_points self = n" "pc_sample_points self = m"
    unfolding ModelNetPointCloud_init_def Let_def by auto
  from s a sc self show thesis
    by (intro that[of "the spl" avail]) auto
qed

lemma ModelNet_init_unknown_category:
  assumes "rep \<in> {Some ''mesh'', Some ''pointcloud''}" "spl \<in> {Some ''train'', Some ''test''}"
    and "iterdir F b = Inr entries" and "cats \<noteq> []"
    and "c \<in> set cats" "c \<notin> set (map fst (filter snd entries))"
  shows "\<exists>bad. ModelNet_init F b rep spl (Some cats) d t k
           = Inl (ValueError (invalid_class_message bad (map fst (filter snd entries))))"
proof -
  from scan_categories_Inl[OF assms(5,6)] obtain bad where
    "scan_categories F b (the spl) (map fst (filter snd entries)) 0 cats ([], [])
       = Inl (ValueError (invalid_class_message bad (map fst (filter snd entries))))"
    by blast
  with assms(1-4) show ?thesis
    unfolding ModelNet_init_def avail_categories_def categories_or_def
    by (intro exI[of _ bad]) auto
qed

lemma ModelNetPointCloud_init_unknown_category:
  assumes "spl \<in> {Some ''train'', Some ''test''}"
    and "iterdir F b = Inr entries" and "cats \<noteq> []"
    and "c \<in> set cats" "c \<notin> set (map fst (filter snd entries))"
  shows "\<exists>bad. ModelNetPointCloud_init F b spl (Some cats) d t n m
           = Inl (ValueError (invalid_class_message bad (map fst (filter snd entries))))"
proof -
  from scan_categories_Inl[OF assms(4,5)] obtain bad where
    "scan_categories F b (the spl) (map fst (filter snd entries)) 0 cats ([], [])
       = Inl (ValueError (invalid_class_message bad (map fst (filter snd entries))))"
    by blast
  with assms(1-3) show ?thesis
    unfolding ModelNetPointCloud_init_def avail_categories_def categories_or_def
    by (intro exI[of _ bad]) auto
qed

text \<open>
  Whatever \<^verbatim>\<open>rep\<close> and \<^verbatim>\<open>split\<close> are: where the root can be listed, a requested
  category that is not among its directories makes the constructor raise \<^verbatim>\<open>ValueError\<close>.
\<close>

lemma ModelNet_init_unknown_category_ValueError:
  assumes "iterdir F b = Inr entries"
    and "c \<in> set cats" "c \<notin> set (map fst (filter snd entries))"
  shows "\<exists>msg. ModelNet_init F b rep spl (Some cats) d t k = Inl (ValueError msg)"
proof (cases "rep \<in> {Some ''mesh'', Some ''pointcloud''} \<and> spl \<in> {Some ''train'', Some ''test''}")
  case True
  from assms(2) have "cats \<noteq> []" by auto
  with True ModelNet_init_unknown_category[OF _ _ assms(1) _ assms(2,3), of rep spl d t k]
  show ?thesis by blast
next
  case False
  then show ?thesis unfolding ModelNet_init_def by auto
qed

lemma ModelNetPointCloud_init_unknown_category_ValueError:
  assumes "iterdir F b = Inr entries"
    and "c \<in> set cats" "c \<notin> set (map fst (filter snd entries))"
  shows "\<exists>msg. ModelNetPointCloud_init F b spl (Some cats) d t n m = Inl (ValueError msg)"
proof (cases "spl \<in> {Some ''train'', Some ''test''}")
  case True
  from assms(2) have "cats \<noteq> []" by auto
  with True ModelNetPointCloud_init_unknown_category[OF _ assms(1) _ assms(2,3), of spl d t n m]
  show ?thesis by blast
next
  case False
  then show ?thesis unfolding ModelNetPointCloud_init_def by auto
qed

lemma voxel_scan_Inr:
  "voxel_scan F root train test side all_classes cats names = Inr names' \<Longrightarrow>
   set cats \<subseteq> set all_classes \<and>
   names' = names @ concat (map (mat_matches F root train test side) cats)"
proof (induction cats arbitrary: names)
  case Nil
  then show ?case by simp
next
  case (Cons c cs)
  from Cons.prems have c: "c \<in> set all_classes" by (auto split: if_splits)
  from Cons.prems c have
    "voxel_scan F root train test side all_classes cs
       (names @ mat_matches F root train test side c) = Inr names'"
    by (simp add: mat_matches_def Let_def split: if_splits)
  from Cons.IH[OF this] c show ?case by simp
qed

lemma accesses_paths:
  "pc_paths (fst (accesses L self idxs w)) = pc_paths self"
proof (induction idxs arbitrary: self w)
  case Nil
  show ?case by simp
next
  case (Cons i idxs)
  have "pc_paths (self_after (ModelNetPointCloud_getitem L self i w)) = pc_paths self"
    unfolding ModelNetPointCloud_getitem_def Let_def
    by (simp split: option.splits sum.splits prod.splits)
  with Cons.IH show ?case by (simp add: Let_def)
qed

subsection \<open>Concrete runs on the small data set\<close>

lemma demo_ModelNet_init:
  "ModelNet_init demo_fs ''/d'' (Some ''mesh'') (Some ''train'') None ''cpu'' None []
   = Inr demo_ModelNet"
  by (simp add: ModelNet_init_def demo_fs_def demo_ModelNet_def avail_categories_def
      categories_or_def pjoin_def kwargs_num_points_def)

lemma demo_ModelNet_init_chosen:
  "ModelNet_init demo_fs ''/d'' (Some ''mesh'') (Some ''train'') (Some [''chair'', ''sofa''])
     ''cpu'' None [] = Inr demo_ModelNet"
  by (simp add: ModelNet_init_def demo_fs_def demo_ModelNet_def avail_categories_def
      categories_or_def pjoin_def kwargs_num_points_def)

lemma demo_PointCloud_init:
  "ModelNetPointCloud_init demo_fs ''/d'' (Some ''train'') None ''cpu'' None n m
   = Inr (demo_PointCloud n m)"
  by (simp add: ModelNetPointCloud_init_def demo_fs_def demo_PointCloud_def avail_categories_def
      categories_or_def pjoin_def)

lemma demo_PointCloud_init_chosen:
  "ModelNetPointCloud_init demo_fs ''/d'' (Some ''train'') (Some [''chair'', ''sofa'']) ''cpu'' None n m
   = Inr (demo_PointCloud n m)"
  by (simp add: ModelNetPointCloud_init_def demo_fs_def demo_PointCloud_def avail_categories_def
      categories_or_def pjoin_def)

lemma demo_Voxels_init:
  "ModelNetVoxels_init (''os'' # ''glob'' # module_globals) demo_fs ''/d'' True False True
     [''chair''] True = Inr demo_Voxels"
  by (simp add: ModelNetVoxels_init_def load_global_def demo_fs_def demo_Voxels_def
      os_path_basename_def os_path_dirname_def mat_pattern_def)

subsection \<open>Validation at construction\<close>

text \<open>
  Claim C3. Constructing \<^verbatim>\<open>ModelNet\<close> with a \<^verbatim>\<open>rep\<close> other than \<^verbatim>\<open>'mesh'\<close> or
  \<^verbatim>\<open>'pointcloud'\<close>, or constructing \<^verbatim>\<open>ModelNet\<close> or \<^verbatim>\<open>ModelNetPointCloud\<close> with a
  \<^verbatim>\<open>split\<close> other than \<^verbatim>\<open>'train'\<close> or \<^verbatim>\<open>'test'\<close>, raises a \<^verbatim>\<open>ValueError\<close>. The
  error depends on the offending argument alone and is the same for every file system,
  base directory and category list, also where the base directory cannot be listed: it
  is raised before the directory is read and before any sample index is built.
\<close>

theorem unsupported_rep_or_split_is_ValueError:
  "(rep \<notin> {Some ''mesh'', Some ''pointcloud''} \<longrightarrow>
      ModelNet_init F b rep spl cats d t k = Inl (ValueError (invalid_rep_message rep))) \<and>
   (rep \<in> {Some ''mesh'', Some ''pointcloud''} \<and> spl \<notin> {Some ''train'', Some ''test''} \<longrightarrow>
      ModelNet_init F b rep spl cats d t k = Inl (ValueError (invalid_split_message spl))) \<and>
   (spl \<notin> {Some ''train'', Some ''test''} \<longrightarrow>
      ModelNetPointCloud_init F b spl cats d t' n m
        = Inl (ValueError (invalid_split_message spl)))"
  by (simp add: ModelNet_init_def ModelNetPointCloud_init_def)

theorem unsupported_rep_or_split_is_ValueError_witness:
  "Some ''voxels'' \<notin> {Some ''mesh'', Some ''pointcloud''} \<and>
   Some ''mesh'' \<in> {Some ''mesh'', Some ''pointcloud''} \<and>
   Some ''val'' \<notin> {Some ''train'', Some ''test''} \<and>
   (ModelNet_init demo_fs ''/d'' (Some ''voxels'') (Some ''train'') None ''cpu'' None []
      :: error + (nat, string, int, int) ModelNet)
     = Inl (ValueError (invalid_rep_message (Some ''voxels''))) \<and>
   (ModelNet_init demo_fs ''/nowhere'' (Some ''mesh'') (Some ''val'') (Some [''desk'']) ''cpu'' None []
      :: error + (nat, string, int, int) ModelNet)
     = Inl (ValueError (invalid_split_message (Some ''val''))) \<and>
   (ModelNetPointCloud_init demo_fs ''/nowhere'' (Some ''val'') (Some [''desk'']) ''cpu'' None 1024 4096
      :: error + (nat, string, int, int) ModelNetPointCloud)
     = Inl (ValueError (invalid_split_message (Some ''val'')))"
  using unsupported_rep_or_split_is_ValueError
          [of "Some ''voxels''" demo_fs "''/d''" "Some ''train''" None "''cpu''"
              "None :: (nat, string, int, int) transform option" "[]"
              "None :: (nat, string, int, int) transform option" 1024 4096]
        unsupported_rep_or_split_is_ValueError
          [of "Some ''mesh''" demo_fs "''/nowhere''" "Some ''val''" "Some [''desk'']" "''cpu''"
              "None :: (nat, string, int, int) transform option" "[]"
              "None :: (nat, string, int, int) transform option" 1024 4096]
  by simp

text \<open>
  Claim C9. Constructing \<^verbatim>\<open>ModelNetVoxels\<close> raises \<^verbatim>\<open>NameError\<close> for every argument
  combination: the module imports neither \<^verbatim>\<open>os\<close> nor \<^verbatim>\<open>glob\<close>, and the first thing
  the constructor does is read the name \<^verbatim>\<open>os\<close>. No object is ever constructed.
\<close>

theorem ModelNetVoxels_init_is_NameError:
  "''os'' \<notin> set module_globals \<and> ''glob'' \<notin> set module_globals \<and>
   ModelNetVoxels_init module_globals F root train test download categories single_view
     = Inl (NameError (name_error_message ''os''))"
  by (simp add: ModelNetVoxels_init_def load_global_def module_globals_def)

theorem ModelNetVoxels_init_is_NameError_witness:
  "ModelNetVoxels_init module_globals demo_fs ''/d'' True False True [''chair''] True
     = Inl (NameError (name_error_message ''os'')) \<and>
   ModelNetVoxels_init (''os'' # ''glob'' # module_globals) demo_fs ''/d'' True False True
     [''chair''] True = Inr demo_Voxels"
  using ModelNetVoxels_init_is_NameError [of demo_fs "''/d''" True False True "[''chair'']" True]
        demo_Voxels_init
  by simp

text \<open>
  Claim C2, at the input where the code departs from it. For \<^verbatim>\<open>ModelNet\<close> and
  \<^verbatim>\<open>ModelNetPointCloud\<close> a requested category that is absent from the listing of the
  root raises the \<^verbatim>\<open>ValueError\<close> of the validation (lemmas
  \<open>ModelNet_init_unknown_category\<close> and \<open>ModelNetPointCloud_init_unknown_category\<close>).
  \<^verbatim>\<open>ModelNetVoxels\<close> has the same check (the assertion of line 219), which a module
  that binds \<^verbatim>\<open>os\<close> and \<^verbatim>\<open>glob\<close> reaches; the module as it is raises \<^verbatim>\<open>NameError\<close>
  before it.
\<close>

theorem ModelNetVoxels_unknown_category_run:
  "ModelNetVoxels_init module_globals demo_fs ''/d'' True True True [''desk''] True
     = Inl (NameError (name_error_message ''os'')) \<and>
   ModelNetVoxels_init (''os'' # ''glob'' # module_globals) demo_fs ''/d'' True True True
     [''desk''] True
     = Inl (AssertionError (unknown_class_message ''desk'' [''chair'']))"
  by (simp add: ModelNetVoxels_init_def load_global_def module_globals_def demo_fs_def
      os_path_basename_def os_path_dirname_def)

text \<open>
  Claim C10. For \<^verbatim>\<open>ModelNet\<close> and \<^verbatim>\<open>ModelNetPointCloud\<close> an empty category list is
  treated as no category list: the constructor returns what it returns for \<^verbatim>\<open>None\<close>,
  and where the root can be listed and the other arguments are valid it succeeds with
  all the subdirectories of the root as categories.
\<close>

theorem empty_category_list_selects_all:
  "ModelNet_init F b rep spl (Some []) d t k = ModelNet_init F b rep spl None d t k \<and>
   ModelNetPointCloud_init F b spl (Some []) d' t' n m
     = ModelNetPointCloud_init F b spl None d' t' n m \<and>
   (rep \<in> {Some ''mesh'', Some ''pointcloud''} \<and> spl \<in> {Some ''train'', Some ''test''} \<and>
    iterdir F b = Inr entries \<longrightarrow>
      (\<exists>self. ModelNet_init F b rep spl (Some []) d t k = Inr self \<and>
              mn_categories self = map fst (filter snd entries)) \<and>
      (\<exists>self. ModelNetPointCloud_init F b spl (Some []) d' t' n m = Inr self \<and>
              pc_categories self = map fst (filter snd entries)))"
proof (intro conjI impI)
  have c: "\<And>avail. categories_or (Some []) avail = categories_or None avail"
    by (simp add: categories_or_def)
  show "ModelNet_init F b rep spl (Some []) d t k = ModelNet_init F b rep spl None d t k"
    unfolding ModelNet_init_def c ..
  show "ModelNetPointCloud_init F b spl (Some []) d' t' n m
          = ModelNetPointCloud_init F b spl None d' t' n m"
    unfolding ModelNetPointCloud_init_def c ..
next
  assume h: "rep \<in> {Some ''mesh'', Some ''pointcloud''} \<and> spl \<in> {Some ''train'', Some ''test''} \<and>
             iterdir F b = Inr entries"
  let ?avail = "map fst (filter snd entries)"
  obtain r where r: "scan_categories F b (the spl) ?avail 0 ?avail ([], []) = Inr r"
    using scan_categories_total[of ?avail ?avail] by blast
  obtain ps ls where pl: "r = (ps, ls)" by (cases r)
  from h r pl show "\<exists>self. ModelNet_init F b rep spl (Some []) d t k = Inr self \<and>
                           mn_categories self = map fst (filter snd entries)"
    by (auto simp: ModelNet_init_def avail_categories_def categories_or_def)
  from h r pl show "\<exists>self. ModelNetPointCloud_init F b spl (Some []) d' t' n m = Inr self \<and>
                           pc_categories self = map fst (filter snd entries)"
    by (auto simp: ModelNetPointCloud_init_def avail_categories_def categories_or_def)
qed

theorem empty_category_list_selects_all_witness:
  "Some ''mesh'' \<in> {Some ''mesh'', Some ''pointcloud''} \<and>
   Some ''train'' \<in> {Some ''train'', Some ''test''} \<and>
   iterdir demo_fs ''/d'' = Inr [(''chair'', True), (''notes'', False), (''sofa'', True)] \<and>
   (\<exists>self :: (nat, string, int, int) ModelNet.
      ModelNet_init demo_fs ''/d'' (Some ''mesh'') (Some ''train'') (Some []) ''cpu'' None []
        = Inr self \<and> mn_categories self = [''chair'', ''sofa'']) \<and>
   (\<exists>self :: (nat, string, int, int) ModelNetPointCloud.
      ModelNetPointCloud_init demo_fs ''/d'' (Some ''train'') (Some []) ''cpu'' None 2 4
        = Inr self \<and> pc_categories self = [''chair'', ''sofa''])"
proof -
  have e: "iterdir demo_fs ''/d'' = Inr [(''chair'', True), (''notes'', False), (''sofa'', True)]"
    by (simp add: demo_fs_def)
  have m: "map fst (filter snd [(''chair'', True), (''notes'', False), (''sofa'', True)])
             = [''chair'', ''sofa'']"
    by simp
  have h: "Some ''mesh'' \<in> {Some ''mesh'', Some ''pointcloud''} \<and>
           Some ''train'' \<in> {Some ''train'', Some ''test''} \<and>
           iterdir demo_fs ''/d'' = Inr [(''chair'', True), (''notes'', False), (''sofa'', True)]"
    using e by simp
  from h
    empty_category_list_selects_all [of demo_fs "''/d''" "Some ''mesh''" "Some ''train''"
      "''cpu''" "None :: (nat, string, int, int) transform option" "[]" "''cpu''"
      "None :: (nat, string, int, int) transform option" 2 4
      "[(''chair'', True), (''notes'', False), (''sofa'', True)]"]
  show ?thesis unfolding m by blast
qed

subsection \<open>Labels and length\<close>

lemma positional_index_set:
  "set (positional_index F b s cs)
     = {(p, int i) | p i. i < length cs \<and> p \<in> set (catdir_matches F b s (cs ! i))}"
  unfolding positional_index_def
  by (auto simp: in_set_enumerate_eq) (force simp: in_set_enumerate_eq)

text \<open>
  Claim C7. The sample index of a constructed \<^verbatim>\<open>ModelNet\<close> or \<^verbatim>\<open>ModelNetPointCloud\<close> is
  the positional one over its categories: the files matched for the category at position
  \<open>i\<close>, each with the label \<open>i\<close>, and nothing else. For every explicitly supplied
  category list, each file matched for its \<open>i\<close>-th category is in the index with the
  label \<open>i\<close>, and a non-empty supplied list is the list of categories of the adapter.
  Two constructions over the same tree with the same category argument, whatever their
  other arguments, have the same categories and the same labelled index.
\<close>

theorem labels_are_positions:
  "(ModelNet_init F b rep (Some s) cats d t k = Inr mn \<longrightarrow>
      length (mn_labels mn) = length (mn_paths mn) \<and>
      zip (mn_paths mn) (mn_labels mn) = positional_index F b s (mn_categories mn) \<and>
      (\<forall>cs. cats = Some cs \<and> cs \<noteq> [] \<longrightarrow> mn_categories mn = cs) \<and>
      (\<forall>cs i p. cats = Some cs \<and> i < length cs \<and> p \<in> set (catdir_matches F b s (cs ! i)) \<longrightarrow>
         (p, int i) \<in> set (zip (mn_paths mn) (mn_labels mn))) \<and>
      (\<forall>p l. (p, l) \<in> set (zip (mn_paths mn) (mn_labels mn)) \<longrightarrow>
         (\<exists>i. l = int i \<and> i < length (mn_categories mn) \<and>
              p \<in> set (catdir_matches F b s (mn_categories mn ! i))))) \<and>
   (ModelNetPointCloud_init F b (Some s) cats d' t' n m = Inr pc \<longrightarrow>
      length (pc_labels pc) = length (pc_paths pc) \<and>
      zip (pc_paths pc) (pc_labels pc) = positional_index F b s (pc_categories pc) \<and>
      (\<forall>cs. cats = Some cs \<and> cs \<noteq> [] \<longrightarrow> pc_categories pc = cs) \<and>
      (\<forall>cs i p. cats = Some cs \<and> i < length cs \<and> p \<in> set (catdir_matches F b s (cs ! i)) \<longrightarrow>
         (p, int i) \<in> set (zip (pc_paths pc) (pc_labels pc))) \<and>
      (\<forall>p l. (p, l) \<in> set (zip (pc_paths pc) (pc_labels pc)) \<longrightarrow>
         (\<exists>i. l = int i \<and> i < length (pc_categories pc) \<and>
              p \<in> set (catdir_matches F b s (pc_categories pc ! i))))) \<and>
   (ModelNet_init F b rep (Some s) cats d t k = Inr mn \<and>
    ModelNet_init F b rep2 (Some s) cats d2 t2 k2 = Inr mn2 \<longrightarrow>
      mn_categories mn2 = mn_categories mn \<and>
      zip (mn_paths mn2) (mn_labels mn2) = zip (mn_paths mn) (mn_labels mn)) \<and>
   (ModelNetPointCloud_init F b (Some s) cats d' t' n m = Inr pc \<and>
    ModelNetPointCloud_init F b (Some s) cats d3 t3 n3 m3 = Inr pc2 \<longrightarrow>
      pc_categories pc2 = pc_categories pc \<and>
      zip (pc_paths pc2) (pc_labels pc2) = zip (pc_paths pc) (pc_labels pc))"
proof -
  have supplied: "\<forall>cs i p. cats = Some cs \<and> i < length cs \<and>
                    p \<in> set (catdir_matches F b s (cs ! i)) \<longrightarrow>
                    (p, int i) \<in> set (positional_index F b s (categories_or cats avail))" for avail
  proof (intro allI impI)
    fix cs i p
    assume h: "cats = Some cs \<and> i < length cs \<and> p \<in> set (catdir_matches F b s (cs ! i))"
    then have "cs \<noteq> []" by auto
    with h have "categories_or cats avail = cs" by (simp add: categories_or_def)
    with h show "(p, int i) \<in> set (positional_index F b s (categories_or cats avail))"
      by (auto simp: positional_index_set)
  qed
  have nonempty: "\<forall>cs. cats = Some cs \<and> cs \<noteq> [] \<longrightarrow> categories_or cats avail = cs" for avail
    by (simp add: categories_or_def)
  have mn_part:
    "\<exists>avail. avail_categories F b = Inr avail \<and> mn_categories x = categories_or cats avail \<and>
       length (mn_labels x) = length (mn_paths x) \<and>
       zip (mn_paths x) (mn_labels x) = positional_index F b s (mn_categories x)"
    if i: "ModelNet_init F b r (Some s) cats dd tt kk = Inr x" for r dd tt kk x
  proof -
    from i obtain avail where
      a: "avail_categories F b = Inr avail" and
      c: "mn_categories x = categories_or cats avail" and
      sc: "scan_categories F b s avail 0 (categories_or cats avail) ([], [])
             = Inr (mn_paths x, mn_labels x)"
      by (rule ModelNet_init_Inr) auto
    from a c scan_from_empty(4)[OF sc] scan_from_empty(3)[OF sc] show ?thesis by simp
  qed
  have pc_part:
    "\<exists>avail. avail_categories F b = Inr avail \<and> pc_categories x = categories_or cats avail \<and>
       length (pc_labels x) = length (pc_paths x) \<and>
       zip (pc_paths x) (pc_labels x) = positional_index F b s (pc_categories x)"
    if i: "ModelNetPointCloud_init F b (Some s) cats dd tt nn mm = Inr x" for dd tt nn mm x
  proof -
    from i obtain avail where
      a: "avail_categories F b = Inr avail" and
      c: "pc_categories x = categories_or cats avail" and
      sc: "scan_categories F b s avail 0 (categories_or cats avail) ([], [])
             = Inr (pc_paths x, pc_labels x)"
      by (rule ModelNetPointCloud_init_Inr) auto
    from a c scan_from_empty(4)[OF sc] scan_from_empty(3)[OF sc] show ?thesis by simp
  qed
  show ?thesis
  proof (intro conjI impI)
    assume "ModelNet_init F b rep (Some s) cats d t k = Inr mn"
    from mn_part[OF this] obtain avail where
      c: "mn_categories mn = categories_or cats avail" and
      l: "length (mn_labels mn) = length (mn_paths mn)" and
      z: "zip (mn_paths mn) (mn_labels mn) = positional_index F b s (mn_categories mn)"
      by blast
    show "length (mn_labels mn) = length (mn_paths mn)" by (rule l)
    show "zip (mn_paths mn) (mn_labels mn) = positional_index F b s (mn_categories mn)" by (rule z)
    show "\<forall>cs. cats = Some cs \<and> cs \<noteq> [] \<longrightarrow> mn_categories mn = cs"
      unfolding c by (rule nonempty)
    show "\<forall>cs i p. cats = Some cs \<and> i < length cs \<and> p \<in> set (catdir_matches F b s (cs ! i)) \<longrightarrow>
            (p, int i) \<in> set (zip (mn_paths mn) (mn_labels mn))"
      unfolding z c by (rule supplied)
    show "\<forall>p l. (p, l) \<in> set (zip (mn_paths mn) (mn_labels mn)) \<longrightarrow>
            (\<exists>i. l = int i \<and> i < length (mn_categories mn) \<and>
                 p \<in> set (catdir_matches F b s (mn_categories mn ! i)))"
      unfolding z by (auto simp: positional_index_set)
  next
    assume "ModelNetPointCloud_init F b (Some s) cats d' t' n m = Inr pc"
    from pc_part[OF this] obtain avail where
      c: "pc_categories pc = categories_or cats avail" and
      l: "length (pc_labels pc) = length (pc_paths pc)" and
      z: "zip (pc_paths pc) (pc_labels pc) = positional_index F b s (pc_categories pc)"
      by blast
    show "length (pc_labels pc) = length (pc_paths pc)" by (rule l)
    show "zip (pc_paths pc) (pc_labels pc) = positional_index F b s (pc_categories pc)" by (rule z)
    show "\<forall>cs. cats = Some cs \<and> cs \<noteq> [] \<longrightarrow> pc_categories pc = cs"
      unfolding c by (rule nonempty)
    show "\<forall>cs i p. cats = Some cs \<and> i < length cs \<and> p \<in> set (catdir_matches F b s (cs ! i)) \<longrightarrow>
            (p, int i) \<in> set (zip (pc_paths pc) (pc_labels pc))"
      unfolding z c by (rule supplied)
    show "\<forall>p l. (p, l) \<in> set (zip (pc_paths pc) (pc_labels pc)) \<longrightarrow>
            (\<exists>i. l = int i \<and> i < length (pc_categories pc) \<and>
                 p \<in> set (catdir_matches F b s (pc_categories pc ! i)))"
      unfolding z by (auto simp: positional_index_set)
  next
    assume h: "ModelNet_init F b rep (Some s) cats d t k = Inr mn \<and>
               ModelNet_init F b rep2 (Some s) cats d2 t2 k2 = Inr mn2"
    from h mn_part[of rep d t k mn] mn_part[of rep2 d2 t2 k2 mn2]
    show c: "mn_categories mn2 = mn_categories mn" by auto
    from h mn_part[of rep d t k mn] mn_part[of rep2 d2 t2 k2 mn2] c
    show "zip (mn_paths mn2) (mn_labels mn2) = zip (mn_paths mn) (mn_labels mn)" by auto
  next
    assume h: "ModelNetPointCloud_init F b (Some s) cats d' t' n m = Inr pc \<and>
               ModelNetPointCloud_init F b (Some s) cats d3 t3 n3 m3 = Inr pc2"
    from h pc_part[of d' t' n m pc] pc_part[of d3 t3 n3 m3 pc2]
    show c: "pc_categories pc2 = pc_categories pc" by auto
    from h pc_part[of d' t' n m pc] pc_part[of d3 t3 n3 m3 pc2] c
    show "zip (pc_paths pc2) (pc_labels pc2) = zip (pc_paths pc) (pc_labels pc)" by auto
  qed
qed

theorem labels_are_positions_witness:
  "ModelNet_init demo_fs ''/d'' (Some ''mesh'') (Some ''train'') (Some [''chair'', ''sofa''])
     ''cpu'' None [] = Inr demo_ModelNet \<and>
   ModelNetPointCloud_init demo_fs ''/d'' (Some ''train'') (Some [''chair'', ''sofa''])
     ''cpu'' None 2 4 = Inr (demo_PointCloud 2 4) \<and>
   mn_categories demo_ModelNet = [''chair'', ''sofa''] \<and>
   zip (mn_paths demo_ModelNet) (mn_labels demo_ModelNet)
     = positional_index demo_fs ''/d'' ''train'' [''chair'', ''sofa''] \<and>
   zip (pc_paths (demo_PointCloud 2 4)) (pc_labels (demo_PointCloud 2 4))
     = positional_index demo_fs ''/d'' ''train'' [''chair'', ''sofa''] \<and>
   positional_index demo_fs ''/d'' ''train'' [''chair'', ''sofa'']
     = [(''ca.off'', 0), (''cb.off'', 0), (''sc.off'', 1)] \<and>
   ''sc.off'' \<in> set (catdir_matches demo_fs ''/d'' ''train'' ([''chair'', ''sofa''] ! 1)) \<and>
   (''sc.off'', 1) \<in> set (zip (mn_paths demo_ModelNet) (mn_labels demo_ModelNet)) \<and>
   ModelNet_init demo_fs ''/d'' (Some ''mesh'') (Some ''train'') (Some []) ''cpu'' None []
     = Inr demo_ModelNet"
proof -
  have p: "positional_index demo_fs ''/d'' ''train'' [''chair'', ''sofa'']
             = [(''ca.off'', 0), (''cb.off'', 0), (''sc.off'', 1)]"
    by (simp add: positional_index_def catdir_matches_def demo_fs_def pjoin_def)
  have c: "mn_categories demo_ModelNet = [''chair'', ''sofa'']"
    "pc_categories (demo_PointCloud 2 4) = [''chair'', ''sofa'']"
    by (simp_all add: demo_ModelNet_def demo_PointCloud_def)
  have q: "''sc.off'' \<in> set (catdir_matches demo_fs ''/d'' ''train'' ([''chair'', ''sofa''] ! 1))"
    by (simp add: catdir_matches_def demo_fs_def pjoin_def)
  have e: "ModelNet_init demo_fs ''/d'' (Some ''mesh'') (Some ''train'') (Some []) ''cpu'' None []
             = (Inr demo_ModelNet :: error + (nat, string, int, int) ModelNet)"
    by (simp add: ModelNet_init_def demo_fs_def demo_ModelNet_def avail_categories_def
        categories_or_def pjoin_def kwargs_num_points_def)
  note t = labels_are_positions [of demo_fs "''/d''" "Some ''mesh''" "''train''"
      "Some [''chair'', ''sofa'']" "''cpu''"
      "None :: (nat, string, int, int) transform option" "[]" demo_ModelNet "''cpu''"
      "None :: (nat, string, int, int) transform option" 2 4 "demo_PointCloud 2 4"
      "Some ''mesh''" "''cpu''" "None :: (nat, string, int, int) transform option" "[]"
      demo_ModelNet "''cpu''" "None :: (nat, string, int, int) transform option" 2 4
      "demo_PointCloud 2 4"]
  from t demo_ModelNet_init_chosen
  have z1: "zip (mn_paths demo_ModelNet) (mn_labels demo_ModelNet)
              = positional_index demo_fs ''/d'' ''train'' [''chair'', ''sofa'']"
    unfolding c by blast
  from t demo_PointCloud_init_chosen [of 2 4]
  have z2: "zip (pc_paths (demo_PointCloud 2 4)) (pc_labels (demo_PointCloud 2 4))
              = positional_index demo_fs ''/d'' ''train'' [''chair'', ''sofa'']"
    unfolding c by blast
  from z1 p have m: "(''sc.off'', 1) \<in> set (zip (mn_paths demo_ModelNet) (mn_labels demo_ModelNet))"
    by simp
  show ?thesis
    by (intro conjI demo_ModelNet_init_chosen demo_PointCloud_init_chosen c(1) z1 z2 p q m e)
qed

text \<open>
  Claim C4. The length of a constructed adapter is the number of files matched by the
  scan of the constructor: the \<^verbatim>\<open>*.off\<close> files under \<^verbatim>\<open><root>/<category>/<split>/\<close>,
  summed over the categories, for \<^verbatim>\<open>ModelNet\<close> and \<^verbatim>\<open>ModelNetPointCloud\<close>, and the
  \<^verbatim>\<open>.mat\<close> files matched for the requested parts, summed over the categories, for
  \<^verbatim>\<open>ModelNetVoxels\<close> (in any module namespace in which its constructor returns). No
  access changes it: \<^verbatim>\<open>ModelNet\<close> and \<^verbatim>\<open>ModelNetVoxels\<close> accesses leave the object as it
  is, and any sequence of \<^verbatim>\<open>ModelNetPointCloud\<close> accesses leaves the length the same.
\<close>

theorem length_is_number_of_matched_files:
  "(ModelNet_init F b rep (Some s) cats d t k = Inr mn \<longrightarrow>
      ModelNet_len mn
        = int (sum_list (map (\<lambda>c. length (catdir_matches F b s c)) (mn_categories mn)))) \<and>
   (ModelNetPointCloud_init F b (Some s) cats d' t' n m = Inr pc \<longrightarrow>
      ModelNetPointCloud_len pc
        = int (sum_list (map (\<lambda>c. length (catdir_matches F b s c)) (pc_categories pc))) \<and>
      ModelNetPointCloud_len (fst (accesses L pc idxs w)) = ModelNetPointCloud_len pc) \<and>
   (ModelNetVoxels_init G F root train test download vcats single_view = Inr vx \<longrightarrow>
      ModelNetVoxels_len vx
        = int (sum_list (map (\<lambda>c. length (mat_matches F root train test
                                             (if \<not> single_view then [] else ''_1'') c)) vcats)))"
proof (intro conjI impI)
  assume i: "ModelNet_init F b rep (Some s) cats d t k = Inr mn"
  from i obtain avail where
    c: "mn_categories mn = categories_or cats avail" and
    sc: "scan_categories F b s avail 0 (categories_or cats avail) ([], [])
           = Inr (mn_paths mn, mn_labels mn)"
    by (rule ModelNet_init_Inr) auto
  from scan_from_empty(2)[OF sc] c
  show "ModelNet_len mn
          = int (sum_list (map (\<lambda>c. length (catdir_matches F b s c)) (mn_categories mn)))"
    by (simp add: ModelNet_len_def length_concat comp_def)
next
  assume i: "ModelNetPointCloud_init F b (Some s) cats d' t' n m = Inr pc"
  from i obtain avail where
    c: "pc_categories pc = categories_or cats avail" and
    sc: "scan_categories F b s avail 0 (categories_or cats avail) ([], [])
           = Inr (pc_paths pc, pc_labels pc)"
    by (rule ModelNetPointCloud_init_Inr) auto
  from scan_from_empty(2)[OF sc] c
  show "ModelNetPointCloud_len pc
          = int (sum_list (map (\<lambda>c. length (catdir_matches F b s c)) (pc_categories pc)))"
    by (simp add: ModelNetPointCloud_len_def length_concat comp_def)
  show "ModelNetPointCloud_len (fst (accesses L pc idxs w)) = ModelNetPointCloud_len pc"
    by (simp add: ModelNetPointCloud_len_def accesses_paths)
next
  assume i: "ModelNetVoxels_init G F root train test download vcats single_view = Inr vx"
  let ?side = "if \<not> single_view then [] else ''_1''"
  let ?all = "map (\<lambda>c. os_path_basename (os_path_dirname c))
                  (glob F (root @ ''/ModelNet/volumetric_data/*/''))"
  from i have "voxel_scan F root train test ?side ?all vcats [] = Inr (vx_names vx)"
    unfolding ModelNetVoxels_init_def Let_def
    by (auto split: sum.splits if_splits)
  from voxel_scan_Inr[OF this]
  show "ModelNetVoxels_len vx
          = int (sum_list (map (\<lambda>c. length (mat_matches F root train test ?side c)) vcats))"
    by (simp add: ModelNetVoxels_len_def length_concat comp_def)
qed

theorem length_is_number_of_matched_files_witness:
  "ModelNet_init demo_fs ''/d'' (Some ''mesh'') (Some ''train'') None ''cpu'' None []
     = Inr demo_ModelNet \<and>
   ModelNet_len demo_ModelNet = 3 \<and>
   ModelNetPointCloud_init demo_fs ''/d'' (Some ''train'') None ''cpu'' None 2 4
     = Inr (demo_PointCloud 2 4) \<and>
   ModelNetPointCloud_len (demo_PointCloud 2 4) = 3 \<and>
   ModelNetPointCloud_len (fst (accesses demo_lib (demo_PointCloud 2 4) [0, 1, 0] 0)) = 3 \<and>
   ModelNetVoxels_init (''os'' # ''glob'' # module_globals) demo_fs ''/d'' True False True
     [''chair''] True = Inr demo_Voxels \<and>
   ModelNetVoxels_len demo_Voxels = 1"
proof -
  note t = length_is_number_of_matched_files
    [of demo_fs "''/d''" "Some ''mesh''" "''train''" None "''cpu''"
        "None :: (nat, string, int, int) transform option" "[]" demo_ModelNet
        "''cpu''" "None :: (nat, string, int, int) transform option" 2 4 "demo_PointCloud 2 4"
        demo_lib "[0, 1, 0]" 0
        "''os'' # ''glob'' # module_globals" "''/d''" True False True "[''chair'']" True
        demo_Voxels]
  have c: "int (sum_list (map (\<lambda>c. length (catdir_matches demo_fs ''/d'' ''train'' c))
                             [''chair'', ''sofa''])) = 3"
    by (simp add: catdir_matches_def demo_fs_def pjoin_def)
  have v: "int (sum_list (map (\<lambda>c. length (mat_matches demo_fs ''/d'' True False ''_1'' c))
                             [''chair''])) = 1"
    by (simp add: mat_matches_def mat_pattern_def demo_fs_def)
  have cm: "mn_categories demo_ModelNet = [''chair'', ''sofa'']"
    by (simp add: demo_ModelNet_def)
  have cp: "pc_categories (demo_PointCloud 2 4) = [''chair'', ''sofa'']"
    by (simp add: demo_PointCloud_def)
  from t demo_ModelNet_init have a1: "ModelNet_len demo_ModelNet = 3"
    unfolding cm c by blast
  from t demo_PointCloud_init [of 2 4]
  have a2: "ModelNetPointCloud_len (demo_PointCloud 2 4) = 3"
    and a3: "ModelNetPointCloud_len (fst (accesses demo_lib (demo_PointCloud 2 4) [0, 1, 0] 0))
               = ModelNetPointCloud_len (demo_PointCloud 2 4)"
    unfolding cp c by blast+
  from t demo_Voxels_init have a4: "ModelNetVoxels_len demo_Voxels = 1"
    using v by simp
  from a2 a3 have a5:
    "ModelNetPointCloud_len (fst (accesses demo_lib (demo_PointCloud 2 4) [0, 1, 0] 0)) = 3"
    by simp
  show ?thesis
    by (intro conjI demo_ModelNet_init a1 demo_PointCloud_init a2 a5 demo_Voxels_init a4)
qed

subsection \<open>The access of ModelNetPointCloud\<close>

lemma downsample_cache: "cache_after (downsample L self full_pts c w) = c"
  unfolding downsample_def
  by (simp split: prod.splits sum.splits option.splits)

lemma downsample_pts_bound:
  "raised (downsample L self full_pts c w) = None \<Longrightarrow>
   pts_local (downsample L self full_pts c w) \<noteq> None"
  unfolding downsample_def
  by (auto split: prod.splits sum.splits option.splits)

lemma try_block_pts_bound:
  "raised (try_block L self idx w) = None \<Longrightarrow> pts_local (try_block L self idx w) \<noteq> None"
  unfolding try_block_def
  by (auto split: prod.splits sum.splits option.splits dest: downsample_pts_bound)

lemma try_block_cache:
  "pc_sample_cache self i = Some v \<Longrightarrow> cache_after (try_block L self idx w) i = Some v"
  unfolding try_block_def
  by (auto simp: downsample_cache split: prod.splits sum.splits option.splits)

lemma getitem_self_after:
  "self_after (ModelNetPointCloud_getitem L self idx w)
     = self\<lparr> pc_sample_cache := cache_after (try_block L self idx w) \<rparr>"
  unfolding ModelNetPointCloud_getitem_def Let_def
  by (simp split: option.splits sum.splits prod.splits)

lemma getitem_cache_kept:
  "pc_sample_cache self i = Some v \<Longrightarrow>
   pc_sample_cache (self_after (ModelNetPointCloud_getitem L self idx w)) i = Some v"
  by (simp add: getitem_self_after try_block_cache)

text \<open>The first access of an index stores the cloud that \<^verbatim>\<open>mesh.sample\<close> returned.\<close>

lemma getitem_populates:
  assumes "pc_sample_cache self idx = None" "py_index (pc_paths self) idx = Inr p"
    and "from_off L w p = (Inr mesh, w1)"
    and "mesh_sample L w1 mesh (pc_sample_points self) = (Inr full_pts, w2)"
  shows "pc_sample_cache (self_after (ModelNetPointCloud_getitem L self idx w)) idx = Some full_pts"
  using assms by (simp add: getitem_self_after try_block_def downsample_cache)

text \<open>
  Claim C6. A cache entry, once populated, is never overwritten or evicted: after any
  sequence of later accesses, at any indices, the entry of an index is the cloud that
  was stored for it.
\<close>

theorem cache_entry_is_kept:
  assumes "pc_sample_cache self i = Some v"
  shows "pc_sample_cache (fst (accesses L self idxs w)) i = Some v"
  using assms
proof (induction idxs arbitrary: self w)
  case Nil
  then show ?case by simp
next
  case (Cons idx idxs)
  from Cons.prems
  have "pc_sample_cache (self_after (ModelNetPointCloud_getitem L self idx w)) i = Some v"
    by (rule getitem_cache_kept)
  from Cons.IH[OF this] show ?case by (simp add: Let_def)
qed

lemmas demo_access_defs =
  ModelNetPointCloud_getitem_def try_block_def downsample_def demo_lib_def demo_PointCloud_def
  py_index_def take_rows_def tensor_to_def return_pts_def Let_def upt_rec

theorem cache_entry_is_kept_witness:
  "pc_sample_cache (self_after (ModelNetPointCloud_getitem demo_lib (demo_PointCloud 2 4) 0 0)) 0
     = Some ([0, 1, 2, 3], ''cpu'') \<and>
   pc_sample_cache
     (fst (accesses demo_lib
             (self_after (ModelNetPointCloud_getitem demo_lib (demo_PointCloud 2 4) 0 0))
             [0, 2, 0] 2)) 0
     = Some ([0, 1, 2, 3], ''cpu'') \<and>
   fst (mesh_sample demo_lib 2 ''ca.off'' 4) = Inr ([20, 21, 22, 23], ''cpu'')"
proof -
  have h: "pc_sample_cache
             (self_after (ModelNetPointCloud_getitem demo_lib (demo_PointCloud 2 4) 0 0)) 0
           = Some ([0, 1, 2, 3], ''cpu'')"
    by (simp add: demo_access_defs)
  have s: "fst (mesh_sample demo_lib 2 ''ca.off'' 4) = Inr ([20, 21, 22, 23], ''cpu'')"
    by (simp add: demo_lib_def upt_rec)
  from h s cache_entry_is_kept [OF h, of demo_lib "[0, 2, 0]" 2] show ?thesis by simp
qed

text \<open>
  Each step of the \<^verbatim>\<open>try\<close> block that raises leaves the block with that exception,
  in the world the step left and with \<^verbatim>\<open>pts\<close> bound or not as the source has it.
\<close>

lemma index_error_state:
  assumes "pc_sample_cache self idx = None" "py_index (pc_paths self) idx = Inl e"
  shows "raised (try_block L self idx w) = Some e \<and> pts_local (try_block L self idx w) = None \<and>
         world_after (try_block L self idx w) = w"
  using assms by (simp add: try_block_def)

lemma loading_error_state:
  assumes "pc_sample_cache self idx = None" "py_index (pc_paths self) idx = Inr p"
    and "from_off L w p = (Inl e, w1)"
  shows "raised (try_block L self idx w) = Some e \<and> pts_local (try_block L self idx w) = None \<and>
         world_after (try_block L self idx w) = w1"
  using assms by (simp add: try_block_def)

lemma sampling_error_state:
  assumes "pc_sample_cache self idx = None" "py_index (pc_paths self) idx = Inr p"
    and "from_off L w p = (Inr mesh, w1)"
    and "mesh_sample L w1 mesh (pc_sample_points self) = (Inl e, w2)"
  shows "raised (try_block L self idx w) = Some e \<and> pts_local (try_block L self idx w) = None \<and>
         world_after (try_block L self idx w) = w2"
  using assms by (simp add: try_block_def)

lemma choice_error_state:
  assumes "random_choice L w (length (fst full_pts)) (pc_num_points self) False = (Inl e, w1)"
  shows "raised (downsample L self full_pts c w) = Some e \<and>
         pts_local (downsample L self full_pts c w) = None \<and>
         world_after (downsample L self full_pts c w) = w1"
  using assms by (simp add: downsample_def)

lemma rows_error_state:
  assumes "random_choice L w (length (fst full_pts)) (pc_num_points self) False = (Inr idxs, w1)"
    and "take_rows (fst full_pts) idxs = Inl e"
  shows "raised (downsample L self full_pts c w) = Some e \<and>
         pts_local (downsample L self full_pts c w) = None \<and>
         world_after (downsample L self full_pts c w) = w1"
  using assms by (simp add: downsample_def)

lemma device_error_state:
  assumes "random_choice L w (length (fst full_pts)) (pc_num_points self) False = (Inr idxs, w1)"
    and "take_rows (fst full_pts) idxs = Inr rows" "\<not> device_ok L (pc_device self)"
  shows "raised (downsample L self full_pts c w) \<noteq> None \<and>
         pts_local (downsample L self full_pts c w) = Some (PyPoints rows (snd full_pts)) \<and>
         world_after (downsample L self full_pts c w) = w1"
  using assms by (simp add: downsample_def tensor_to_def)

lemma transform_error_state:
  assumes "random_choice L w (length (fst full_pts)) (pc_num_points self) False = (Inr idxs, w1)"
    and "take_rows (fst full_pts) idxs = Inr rows" "device_ok L (pc_device self)"
    and "pc_transform self = Some f" "f w1 (PyPoints rows (pc_device self)) = (Inl e, w2)"
  shows "raised (downsample L self full_pts c w) = Some e \<and>
         pts_local (downsample L self full_pts c w) = Some (PyPoints rows (pc_device self)) \<and>
         world_after (downsample L self full_pts c w) = w2"
  using assms by (simp add: downsample_def tensor_to_def)

lemma downsample_after_hit:
  "pc_sample_cache self idx = Some full_pts \<Longrightarrow>
   try_block L self idx w = downsample L self full_pts (pc_sample_cache self) w"
  by (simp add: try_block_def)

lemma downsample_after_miss:
  "pc_sample_cache self idx = None \<Longrightarrow> py_index (pc_paths self) idx = Inr p \<Longrightarrow>
   from_off L w p = (Inr mesh, w1) \<Longrightarrow>
   mesh_sample L w1 mesh (pc_sample_points self) = (Inr full_pts, w2) \<Longrightarrow>
   try_block L self idx w
     = downsample L self full_pts ((pc_sample_cache self)(idx \<mapsto> full_pts)) w2"
  by (simp add: try_block_def)

lemma reaches_downsampling_try_block:
  assumes "reaches_downsampling L self idx w full_pts w0"
  shows "\<exists>c. try_block L self idx w = downsample L self full_pts c w0"
  using assms unfolding reaches_downsampling_def
  by (auto simp: downsample_after_hit downsample_after_miss)

text \<open>An exception that leaves the \<^verbatim>\<open>try\<close> block is handled by the debugger.\<close>

lemma raised_went_through_handler:
  assumes "raised (try_block L self idx w) \<noteq> None"
  shows "went_through_handler L (world_after (try_block L self idx w))
           (pts_local (try_block L self idx w)) (ModelNetPointCloud_getitem L self idx w)"
  using assms
  unfolding went_through_handler_def ModelNetPointCloud_getitem_def Let_def
  by (auto split: prod.splits sum.splits)

lemma state_went_through_handler:
  assumes "raised (try_block L self idx w) \<noteq> None \<and> pts_local (try_block L self idx w) = pts \<and>
           world_after (try_block L self idx w) = wt"
  shows "went_through_handler L wt pts (ModelNetPointCloud_getitem L self idx w)"
  using assms raised_went_through_handler[of L self idx w] by auto

lemma not_entered_returns:
  assumes "\<not> debugger_entered (ModelNetPointCloud_getitem L self idx w)"
  shows "\<exists>x. result (ModelNetPointCloud_getitem L self idx w) = Inr x"
proof -
  from assms have r: "raised (try_block L self idx w) = None"
    unfolding ModelNetPointCloud_getitem_def Let_def
    by (simp split: option.splits prod.splits sum.splits)
  from try_block_pts_bound[OF r] obtain x where "pts_local (try_block L self idx w) = Some x"
    by auto
  with r show ?thesis
    unfolding ModelNetPointCloud_getitem_def Let_def by (simp add: return_pts_def)
qed

lemma error_reaching_caller:
  assumes "result (ModelNetPointCloud_getitem L self idx w) = Inl e'"
  shows "debugger_entered (ModelNetPointCloud_getitem L self idx w) \<and>
         (e' = UnboundLocalError unbound_pts_message \<or>
          fst (pdb_set_trace L (world_after (try_block L self idx w))) = Inl e')"
proof (cases "raised (try_block L self idx w)")
  case None
  from try_block_pts_bound[OF None] obtain x where "pts_local (try_block L self idx w) = Some x"
    by auto
  with None assms show ?thesis
    unfolding ModelNetPointCloud_getitem_def Let_def by (simp add: return_pts_def)
next
  case (Some a)
  with assms show ?thesis
    unfolding ModelNetPointCloud_getitem_def Let_def
    by (auto simp: return_pts_def split: prod.splits sum.splits option.splits)
qed

text \<open>
  Claim C8. In \<^verbatim>\<open>ModelNetPointCloud.__getitem__\<close> an exception raised by any step of the
  \<^verbatim>\<open>try\<close> block (indexing the paths, loading the mesh, sampling it, choosing the rows,
  taking them, moving them to the device, transforming them) is caught by the blanket
  handler: the debugger session takes place, in the world that step left, and the access
  ends as the session ends, by the session's own exception or by \<^verbatim>\<open>return pts\<close>, whatever
  the exception was. The exception never reaches the caller: an access that did not
  enter the debugger returned a value, and an exception that does reach the caller is
  the \<^verbatim>\<open>UnboundLocalError\<close> of \<^verbatim>\<open>return pts\<close> or one raised by the debugger session.
\<close>

theorem every_exception_enters_the_debugger:
  "(pc_sample_cache self idx = None \<and> py_index (pc_paths self) idx = Inl e \<longrightarrow>
      went_through_handler L w None (ModelNetPointCloud_getitem L self idx w)) \<and>
   (pc_sample_cache self idx = None \<and> py_index (pc_paths self) idx = Inr p \<and>
    from_off L w p = (Inl e, w1) \<longrightarrow>
      went_through_handler L w1 None (ModelNetPointCloud_getitem L self idx w)) \<and>
   (pc_sample_cache self idx = None \<and> py_index (pc_paths self) idx = Inr p \<and>
    from_off L w p = (Inr mesh, w1) \<and>
    mesh_sample L w1 mesh (pc_sample_points self) = (Inl e, w2) \<longrightarrow>
      went_through_handler L w2 None (ModelNetPointCloud_getitem L self idx w)) \<and>
   (reaches_downsampling L self idx w full_pts w0 \<and>
    random_choice L w0 (length (fst full_pts)) (pc_num_points self) False = (Inl e, w3) \<longrightarrow>
      went_through_handler L w3 None (ModelNetPointCloud_getitem L self idx w)) \<and>
   (reaches_downsampling L self idx w full_pts w0 \<and>
    random_choice L w0 (length (fst full_pts)) (pc_num_points self) False = (Inr idxs, w3) \<and>
    take_rows (fst full_pts) idxs = Inl e \<longrightarrow>
      went_through_handler L w3 None (ModelNetPointCloud_getitem L self idx w)) \<and>
   (reaches_downsampling L self idx w full_pts w0 \<and>
    random_choice L w0 (length (fst full_pts)) (pc_num_points self) False = (Inr idxs, w3) \<and>
    take_rows (fst full_pts) idxs = Inr rows \<and> \<not> device_ok L (pc_device self) \<longrightarrow>
      went_through_handler L w3 (Some (PyPoints rows (snd full_pts)))
        (ModelNetPointCloud_getitem L self idx w)) \<and>
   (reaches_downsampling L self idx w full_pts w0 \<and>
    random_choice L w0 (length (fst full_pts)) (pc_num_points self) False = (Inr idxs, w3) \<and>
    take_rows (fst full_pts) idxs = Inr rows \<and> device_ok L (pc_device self) \<and>
    pc_transform self = Some f \<and> f w3 (PyPoints rows (pc_device self)) = (Inl e, w4) \<longrightarrow>
      went_through_handler L w4 (Some (PyPoints rows (pc_device self)))
        (ModelNetPointCloud_getitem L self idx w)) \<and>
   (raised (try_block L self idx w) = Some e \<longrightarrow>
      went_through_handler L (world_after (try_block L self idx w))
        (pts_local (try_block L self idx w)) (ModelNetPointCloud_getitem L self idx w)) \<and>
   (\<not> debugger_entered (ModelNetPointCloud_getitem L self idx w) \<longrightarrow>
      (\<exists>x. result (ModelNetPointCloud_getitem L self idx w) = Inr x)) \<and>
   (result (ModelNetPointCloud_getitem L self idx w) = Inl e' \<longrightarrow>
      debugger_entered (ModelNetPointCloud_getitem L self idx w) \<and>
      (e' = UnboundLocalError unbound_pts_message \<or>
       fst (pdb_set_trace L (world_after (try_block L self idx w))) = Inl e'))"
proof (intro conjI impI)
  assume "pc_sample_cache self idx = None \<and> py_index (pc_paths self) idx = Inl e"
  then have "raised (try_block L self idx w) = Some e \<and>
             pts_local (try_block L self idx w) = None \<and>
             world_after (try_block L self idx w) = w"
    by (intro index_error_state) simp_all
  then show "went_through_handler L w None (ModelNetPointCloud_getitem L self idx w)"
    by (intro state_went_through_handler) simp
next
  assume "pc_sample_cache self idx = None \<and> py_index (pc_paths self) idx = Inr p \<and>
          from_off L w p = (Inl e, w1)"
  then have "raised (try_block L self idx w) = Some e \<and>
             pts_local (try_block L self idx w) = None \<and>
             world_after (try_block L self idx w) = w1"
    by (intro loading_error_state[of self idx p]) simp_all
  then show "went_through_handler L w1 None (ModelNetPointCloud_getitem L self idx w)"
    by (intro state_went_through_handler) simp
next
  assume "pc_sample_cache self idx = None \<and> py_index (pc_paths self) idx = Inr p \<and>
          from_off L w p = (Inr mesh, w1) \<and>
          mesh_sample L w1 mesh (pc_sample_points self) = (Inl e, w2)"
  then have "raised (try_block L self idx w) = Some e \<and>
             pts_local (try_block L self idx w) = None \<and>
             world_after (try_block L self idx w) = w2"
    by (intro sampling_error_state[of self idx p L w mesh w1]) simp_all
  then show "went_through_handler L w2 None (ModelNetPointCloud_getitem L self idx w)"
    by (intro state_went_through_handler) simp
next
  assume h: "reaches_downsampling L self idx w full_pts w0 \<and>
             random_choice L w0 (length (fst full_pts)) (pc_num_points self) False = (Inl e, w3)"
  then have "reaches_downsampling L self idx w full_pts w0" by simp
  from reaches_downsampling_try_block[OF this]
  obtain c where t: "try_block L self idx w = downsample L self full_pts c w0" ..
  from h have "raised (downsample L self full_pts c w0) = Some e \<and>
               pts_local (downsample L self full_pts c w0) = None \<and>
               world_after (downsample L self full_pts c w0) = w3"
    by (intro choice_error_state) simp
  then show "went_through_handler L w3 None (ModelNetPointCloud_getitem L self idx w)"
    by (intro state_went_through_handler) (simp add: t)
next
  assume h: "reaches_downsampling L self idx w full_pts w0 \<and>
             random_choice L w0 (length (fst full_pts)) (pc_num_points self) False = (Inr idxs, w3) \<and>
             take_rows (fst full_pts) idxs = Inl e"
  then have "reaches_downsampling L self idx w full_pts w0" by simp
  from reaches_downsampling_try_block[OF this]
  obtain c where t: "try_block L self idx w = downsample L self full_pts c w0" ..
  from h have "raised (downsample L self full_pts c w0) = Some e \<and>
               pts_local (downsample L self full_pts c w0) = None \<and>
               world_after (downsample L self full_pts c w0) = w3"
    by (intro rows_error_state[of L w0 full_pts self idxs]) simp_all
  then show "went_through_handler L w3 None (ModelNetPointCloud_getitem L self idx w)"
    by (intro state_went_through_handler) (simp add: t)
next
  assume h: "reaches_downsampling L self idx w full_pts w0 \<and>
             random_choice L w0 (length (fst full_pts)) (pc_num_points self) False = (Inr idxs, w3) \<and>
             take_rows (fst full_pts) idxs = Inr rows \<and> \<not> device_ok L (pc_device self)"
  then have "reaches_downsampling L self idx w full_pts w0" by simp
  from reaches_downsampling_try_block[OF this]
  obtain c where t: "try_block L self idx w = downsample L self full_pts c w0" ..
  from h have "raised (downsample L self full_pts c w0) \<noteq> None \<and>
               pts_local (downsample L self full_pts c w0) = Some (PyPoints rows (snd full_pts)) \<and>
               world_after (downsample L self full_pts c w0) = w3"
    by (intro device_error_state[of L w0 full_pts self idxs]) simp_all
  then show "went_through_handler L w3 (Some (PyPoints rows (snd full_pts)))
               (ModelNetPointCloud_getitem L self idx w)"
    by (intro state_went_through_handler) (simp add: t)
next
  assume h: "reaches_downsampling L self idx w full_pts w0 \<and>
             random_choice L w0 (length (fst full_pts)) (pc_num_points self) False = (Inr idxs, w3) \<and>
             take_rows (fst full_pts) idxs = Inr rows \<and> device_ok L (pc_device self) \<and>
             pc_transform self = Some f \<and> f w3 (PyPoints rows (pc_device self)) = (Inl e, w4)"
  then have "reaches_downsampling L self idx w full_pts w0" by simp
  from reaches_downsampling_try_block[OF this]
  obtain c where t: "try_block L self idx w = downsample L self full_pts c w0" ..
  from h have "raised (downsample L self full_pts c w0) = Some e \<and>
               pts_local (downsample L self full_pts c w0) = Some (PyPoints rows (pc_device self)) \<and>
               world_after (downsample L self full_pts c w0) = w4"
    by (intro transform_error_state[of L w0 full_pts self idxs w3 rows f]) simp_all
  then show "went_through_handler L w4 (Some (PyPoints rows (pc_device self)))
               (ModelNetPointCloud_getitem L self idx w)"
    by (intro state_went_through_handler) (simp add: t)
next
  assume "raised (try_block L self idx w) = Some e"
  then show "went_through_handler L (world_after (try_block L self idx w))
               (pts_local (try_block L self idx w)) (ModelNetPointCloud_getitem L self idx w)"
    by (intro raised_went_through_handler) simp
next
  assume "\<not> debugger_entered (ModelNetPointCloud_getitem L self idx w)"
  then show "\<exists>x. result (ModelNetPointCloud_getitem L self idx w) = Inr x"
    by (rule not_entered_returns)
next
  assume f: "result (ModelNetPointCloud_getitem L self idx w) = Inl e'"
  from error_reaching_caller[OF f]
  show "debugger_entered (ModelNetPointCloud_getitem L self idx w)"
    and "e' = UnboundLocalError unbound_pts_message \<or>
         fst (pdb_set_trace L (world_after (try_block L self idx w))) = Inl e'"
    by simp_all
qed

lemmas demo_run_defs =
  went_through_handler_def reaches_downsampling_def demo_access_defs

theorem every_exception_enters_the_debugger_witness:
  "went_through_handler demo_lib 0 None
     (ModelNetPointCloud_getitem demo_lib (demo_PointCloud 2 4) 7 0) \<and>
   went_through_handler demo_lib 0 None
     (ModelNetPointCloud_getitem demo_lib (demo_PointCloud 2 4) 1 0) \<and>
   world (ModelNetPointCloud_getitem demo_lib (demo_PointCloud 2 4) 1 0) = 100 \<and>
   result (ModelNetPointCloud_getitem demo_lib (demo_PointCloud 2 4) 1 0)
     = Inl (UnboundLocalError unbound_pts_message) \<and>
   went_through_handler demo_lib 0 None
     (ModelNetPointCloud_getitem demo_lib (demo_PointCloud 2 (- 1)) 0 0) \<and>
   went_through_handler demo_lib 1 None
     (ModelNetPointCloud_getitem demo_lib (demo_PointCloud 3 2) 0 0) \<and>
   world (ModelNetPointCloud_getitem demo_lib (demo_PointCloud 3 2) 0 0) = 101 \<and>
   went_through_handler (demo_lib\<lparr>random_choice := (\<lambda>w a size replace. (Inr [a], w))\<rparr>) 1 None
     (ModelNetPointCloud_getitem (demo_lib\<lparr>random_choice := (\<lambda>w a size replace. (Inr [a], w))\<rparr>)
        (demo_PointCloud 2 4) 0 0) \<and>
   went_through_handler demo_lib 2 (Some (PyPoints [3, 2] ''cpu''))
     (ModelNetPointCloud_getitem demo_lib ((demo_PointCloud 2 4)\<lparr>pc_device := ''cuda''\<rparr>) 0 0) \<and>
   result (ModelNetPointCloud_getitem demo_lib ((demo_PointCloud 2 4)\<lparr>pc_device := ''cuda''\<rparr>) 0 0)
     = Inr (PyPoints [3, 2] ''cpu'') \<and>
   went_through_handler demo_lib 3 (Some (PyPoints [3, 2] ''cpu''))
     (ModelNetPointCloud_getitem demo_lib
        ((demo_PointCloud 2 4)\<lparr>pc_transform :=
            Some (\<lambda>w x. (Inl (LibraryError ''bad transform''), Suc w))\<rparr>) 0 0) \<and>
   world (ModelNetPointCloud_getitem demo_lib
        ((demo_PointCloud 2 4)\<lparr>pc_transform :=
            Some (\<lambda>w x. (Inl (LibraryError ''bad transform''), Suc w))\<rparr>) 0 0) = 103 \<and>
   result (ModelNetPointCloud_getitem (demo_lib\<lparr>pdb_set_trace := (\<lambda>w. (Inl BdbQuit, w))\<rparr>)
             (demo_PointCloud 2 4) 1 0) = Inl BdbQuit \<and>
   \<not> debugger_entered (ModelNetPointCloud_getitem demo_lib (demo_PointCloud 2 4) 0 0) \<and>
   result (ModelNetPointCloud_getitem demo_lib (demo_PointCloud 2 4) 0 0)
     = Inr (PyPoints [3, 2] ''cpu'')"
proof -
  let ?Lr = "demo_lib\<lparr>random_choice := (\<lambda>w a size replace. (Inr [a], w))\<rparr>"
  let ?Lq = "demo_lib\<lparr>pdb_set_trace := (\<lambda>w. (Inl BdbQuit, w))\<rparr>"
  let ?sd = "(demo_PointCloud 2 4)\<lparr>pc_device := ''cuda''\<rparr>"
  let ?f = "\<lambda>(w::nat) (x::(string, int, int) pyval).
              (Inl (LibraryError ''bad transform'') :: error + (string, int, int) pyval, Suc w)"
  let ?st = "(demo_PointCloud 2 4)\<lparr>pc_transform := Some ?f\<rparr>"
  have c1: "went_through_handler demo_lib 0 None
              (ModelNetPointCloud_getitem demo_lib (demo_PointCloud 2 4) 7 0)"
  proof -
    have "pc_sample_cache (demo_PointCloud 2 4) 7 = None \<and>
          py_index (pc_paths (demo_PointCloud 2 4)) 7 = Inl (IndexError ''list index out of range'')"
      by (simp add: demo_PointCloud_def py_index_def)
    with every_exception_enters_the_debugger
      [where L="demo_lib" and self="demo_PointCloud 2 4" and idx="7" and w="0" and e="IndexError ''list index out of range''" and p="[]"
         and mesh="[]" and ?w1.0="0" and ?w2.0="0" and full_pts="([], [])" and ?w0.0="0" and ?w3.0="0"
         and idxs="[]" and rows="[]" and f="(\<lambda>w x. (Inr x, w))" and ?w4.0="0" and e'="BdbQuit"] show ?thesis by blast
  qed
  have c2: "went_through_handler demo_lib 0 None
              (ModelNetPointCloud_getitem demo_lib (demo_PointCloud 2 4) 1 0)"
  proof -
    have "pc_sample_cache (demo_PointCloud 2 4) 1 = None \<and>
          py_index (pc_paths (demo_PointCloud 2 4)) 1 = Inr ''cb.off'' \<and>
          from_off demo_lib 0 ''cb.off'' = (Inl (LibraryError ''bad OFF file''), 0)"
      by (simp add: demo_PointCloud_def py_index_def demo_lib_def)
    with every_exception_enters_the_debugger
      [where L="demo_lib" and self="demo_PointCloud 2 4" and idx="1" and w="0" and e="LibraryError ''bad OFF file''" and p="''cb.off''"
         and mesh="[]" and ?w1.0="0" and ?w2.0="0" and full_pts="([], [])" and ?w0.0="0" and ?w3.0="0"
         and idxs="[]" and rows="[]" and f="(\<lambda>w x. (Inr x, w))" and ?w4.0="0" and e'="BdbQuit"] show ?thesis by blast
  qed
  have c3: "went_through_handler demo_lib 0 None
              (ModelNetPointCloud_getitem demo_lib (demo_PointCloud 2 (- 1)) 0 0)"
  proof -
    have "pc_sample_cache (demo_PointCloud 2 (- 1)) 0 = None \<and>
          py_index (pc_paths (demo_PointCloud 2 (- 1))) 0 = Inr ''ca.off'' \<and>
          from_off demo_lib 0 ''ca.off'' = (Inr ''ca.off'', 0) \<and>
          mesh_sample demo_lib 0 ''ca.off'' (pc_sample_points (demo_PointCloud 2 (- 1)))
            = (Inl (LibraryError ''negative number of samples''), 0)"
      by (simp add: demo_PointCloud_def py_index_def demo_lib_def)
    with every_exception_enters_the_debugger
      [where L="demo_lib" and self="demo_PointCloud 2 (- 1)" and idx="0" and w="0" and e="LibraryError ''negative number of samples''" and p="''ca.off''"
         and mesh="''ca.off''" and ?w1.0="0" and ?w2.0="0" and full_pts="([], [])" and ?w0.0="0" and ?w3.0="0"
         and idxs="[]" and rows="[]" and f="(\<lambda>w x. (Inr x, w))" and ?w4.0="0" and e'="BdbQuit"] show ?thesis by blast
  qed
  have c4: "went_through_handler demo_lib 1 None
              (ModelNetPointCloud_getitem demo_lib (demo_PointCloud 3 2) 0 0)"
  proof -
    have "reaches_downsampling demo_lib (demo_PointCloud 3 2) 0 0 ([0, 1], ''cpu'') 1 \<and>
          random_choice demo_lib 1 (length (fst ([0, 1 :: int], ''cpu'')))
            (pc_num_points (demo_PointCloud 3 2)) False
            = (Inl (ValueError ''Cannot take a larger sample than population''), 1)"
      by (simp add: reaches_downsampling_def demo_PointCloud_def py_index_def demo_lib_def upt_rec)
    with every_exception_enters_the_debugger
      [where L="demo_lib" and self="demo_PointCloud 3 2" and idx="0" and w="0" and e="ValueError ''Cannot take a larger sample than population''" and p="[]"
         and mesh="[]" and ?w1.0="0" and ?w2.0="0" and full_pts="([0, 1], ''cpu'')" and ?w0.0="1" and ?w3.0="1"
         and idxs="[]" and rows="[]" and f="(\<lambda>w x. (Inr x, w))" and ?w4.0="0" and e'="BdbQuit"] show ?thesis by blast
  qed
  have c5: "went_through_handler ?Lr 1 None
              (ModelNetPointCloud_getitem ?Lr (demo_PointCloud 2 4) 0 0)"
  proof -
    have "reaches_downsampling ?Lr (demo_PointCloud 2 4) 0 0 ([0, 1, 2, 3], ''cpu'') 1 \<and>
          random_choice ?Lr 1 (length (fst ([0, 1, 2, 3 :: int], ''cpu'')))
            (pc_num_points (demo_PointCloud 2 4)) False = (Inr [4], 1) \<and>
          take_rows (fst ([0, 1, 2, 3 :: int], ''cpu'')) [4] = Inl (IndexError ''index out of range'')"
      by (simp add: reaches_downsampling_def demo_PointCloud_def py_index_def demo_lib_def
          take_rows_def upt_rec)
    with every_exception_enters_the_debugger
      [where L="demo_lib\<lparr>random_choice := (\<lambda>w a size replace. (Inr [a], w))\<rparr>" and self="demo_PointCloud 2 4" and idx="0" and w="0" and e="IndexError ''index out of range''" and p="[]"
         and mesh="[]" and ?w1.0="0" and ?w2.0="0" and full_pts="([0, 1, 2, 3], ''cpu'')" and ?w0.0="1" and ?w3.0="1"
         and idxs="[4]" and rows="[]" and f="(\<lambda>w x. (Inr x, w))" and ?w4.0="0" and e'="BdbQuit"] show ?thesis by blast
  qed
  have c6: "went_through_handler demo_lib 2 (Some (PyPoints [3, 2] ''cpu''))
              (ModelNetPointCloud_getitem demo_lib ?sd 0 0)"
  proof -
    have "reaches_downsampling demo_lib ?sd 0 0 ([0, 1, 2, 3], ''cpu'') 1 \<and>
          random_choice demo_lib 1 (length (fst ([0, 1, 2, 3 :: int], ''cpu'')))
            (pc_num_points ?sd) False = (Inr [3, 2], 2) \<and>
          take_rows (fst ([0, 1, 2, 3 :: int], ''cpu'')) [3, 2] = Inr [3, 2] \<and>
          \<not> device_ok demo_lib (pc_device ?sd)"
      by (simp add: reaches_downsampling_def demo_PointCloud_def py_index_def demo_lib_def
          take_rows_def upt_rec)
    with every_exception_enters_the_debugger
      [where L="demo_lib" and self="(demo_PointCloud 2 4)\<lparr>pc_device := ''cuda''\<rparr>" and idx="0" and w="0" and e="BdbQuit" and p="[]"
         and mesh="[]" and ?w1.0="0" and ?w2.0="0" and full_pts="([0, 1, 2, 3], ''cpu'')" and ?w0.0="1" and ?w3.0="2"
         and idxs="[3, 2]" and rows="[3, 2]" and f="(\<lambda>w x. (Inr x, w))" and ?w4.0="0" and e'="BdbQuit"] show ?thesis by simp
  qed
  have c7: "went_through_handler demo_lib 3 (Some (PyPoints [3, 2] ''cpu''))
              (ModelNetPointCloud_getitem demo_lib ?st 0 0)"
  proof -
    have "reaches_downsampling demo_lib ?st 0 0 ([0, 1, 2, 3], ''cpu'') 1 \<and>
          random_choice demo_lib 1 (length (fst ([0, 1, 2, 3 :: int], ''cpu'')))
            (pc_num_points ?st) False = (Inr [3, 2], 2) \<and>
          take_rows (fst ([0, 1, 2, 3 :: int], ''cpu'')) [3, 2] = Inr [3, 2] \<and>
          device_ok demo_lib (pc_device ?st) \<and> pc_transform ?st = Some ?f \<and>
          ?f 2 (PyPoints [3, 2] (pc_device ?st)) = (Inl (LibraryError ''bad transform''), 3)"
      by (simp add: reaches_downsampling_def demo_PointCloud_def py_index_def demo_lib_def
          take_rows_def upt_rec)
    with every_exception_enters_the_debugger
      [where L="demo_lib" and self="(demo_PointCloud 2 4)\<lparr>pc_transform := Some (\<lambda>(w::nat) (x::(string, int, int) pyval). (Inl (LibraryError ''bad transform'') :: error + (string, int, int) pyval, Suc w))\<rparr>" and idx="0" and w="0" and e="LibraryError ''bad transform''" and p="[]"
         and mesh="[]" and ?w1.0="0" and ?w2.0="0" and full_pts="([0, 1, 2, 3], ''cpu'')" and ?w0.0="1" and ?w3.0="2"
         and idxs="[3, 2]" and rows="[3, 2]" and f="\<lambda>(w::nat) (x::(string, int, int) pyval). (Inl (LibraryError ''bad transform'') :: error + (string, int, int) pyval, Suc w)" and ?w4.0="3" and e'="BdbQuit"] show ?thesis by (simp add: demo_PointCloud_def)
  qed
  have v1: "world (ModelNetPointCloud_getitem demo_lib (demo_PointCloud 2 4) 1 0) = 100"
    and v2: "result (ModelNetPointCloud_getitem demo_lib (demo_PointCloud 2 4) 1 0)
               = Inl (UnboundLocalError unbound_pts_message)"
    and v3: "world (ModelNetPointCloud_getitem demo_lib (demo_PointCloud 3 2) 0 0) = 101"
    and v4: "result (ModelNetPointCloud_getitem demo_lib ?sd 0 0) = Inr (PyPoints [3, 2] ''cpu'')"
    and v5: "world (ModelNetPointCloud_getitem demo_lib ?st 0 0) = 103"
    and v6: "result (ModelNetPointCloud_getitem ?Lq (demo_PointCloud 2 4) 1 0) = Inl BdbQuit"
    and v7: "\<not> debugger_entered (ModelNetPointCloud_getitem demo_lib (demo_PointCloud 2 4) 0 0)"
    and v8: "result (ModelNetPointCloud_getitem demo_lib (demo_PointCloud 2 4) 0 0)
               = Inr (PyPoints [3, 2] ''cpu'')"
    by (simp_all add: demo_access_defs)
  show ?thesis
    by (intro conjI c1 c2 v1 v2 c3 c4 v3 c5 c6 v4 c7 v5 v6 v7 v8)
qed

text \<open>
  Claim C5, as the code has it. Once the cache entry of an index is populated, and
  provided \<^verbatim>\<open>num_points\<close> is between 0 and the number of rows of the cached cloud and
  the device is one that torch accepts, every access draws \<^verbatim>\<open>num_points\<close> distinct row
  positions of the cached cloud and takes exactly those rows: with no transform it
  returns them, with a transform it returns what the transform returns on them. The
  cache is left as it is. (\<^verbatim>\<open>np.random.choice\<close> is assumed to do what numpy documents.)
\<close>

theorem access_after_caching:
  assumes "choice_without_replacement L"
    and "pc_sample_cache self idx = Some (rows, dv)"
    and "0 \<le> pc_num_points self" and "pc_num_points self \<le> int (length rows)"
    and "device_ok L (pc_device self)"
  shows "\<exists>idxs w1.
           distinct idxs \<and> length idxs = nat (pc_num_points self) \<and>
           (\<forall>i \<in> set idxs. i < length rows) \<and>
           (pc_transform self = None \<longrightarrow>
              result (ModelNetPointCloud_getitem L self idx w)
                = Inr (PyPoints (map (\<lambda>i. rows ! i) idxs) (pc_device self)) \<and>
              \<not> debugger_entered (ModelNetPointCloud_getitem L self idx w)) \<and>
           (\<forall>f x w2. pc_transform self = Some f \<and>
                      f w1 (PyPoints (map (\<lambda>i. rows ! i) idxs) (pc_device self)) = (Inr x, w2) \<longrightarrow>
              result (ModelNetPointCloud_getitem L self idx w) = Inr x \<and>
              \<not> debugger_entered (ModelNetPointCloud_getitem L self idx w)) \<and>
           pc_sample_cache (self_after (ModelNetPointCloud_getitem L self idx w))
             = pc_sample_cache self"
proof -
  from assms(3,4) have "0 \<le> pc_num_points self \<and> nat (pc_num_points self) \<le> length rows"
    by simp
  with assms(1) obtain idxs w1 where
    ch: "random_choice L w (length rows) (pc_num_points self) False = (Inr idxs, w1)" and
    d: "distinct idxs" and l: "length idxs = nat (pc_num_points self)" and
    b: "\<forall>i \<in> set idxs. i < length rows"
    unfolding choice_without_replacement_def by blast
  from b have tk: "take_rows rows idxs = Inr (map (\<lambda>i. rows ! i) idxs)"
    by (simp add: take_rows_def list_all_iff)
  have tb: "try_block L self idx w = downsample L self (rows, dv) (pc_sample_cache self) w"
    using assms(2) by (rule downsample_after_hit)
  have c: "pc_sample_cache (self_after (ModelNetPointCloud_getitem L self idx w))
             = pc_sample_cache self"
    by (simp add: getitem_self_after tb downsample_cache)
  have n: "pc_transform self = None \<longrightarrow>
             result (ModelNetPointCloud_getitem L self idx w)
               = Inr (PyPoints (map (\<lambda>i. rows ! i) idxs) (pc_device self)) \<and>
             \<not> debugger_entered (ModelNetPointCloud_getitem L self idx w)"
    using ch tk assms(5)
    by (simp add: ModelNetPointCloud_getitem_def tb downsample_def tensor_to_def return_pts_def)
  have s: "\<forall>f x w2. pc_transform self = Some f \<and>
                     f w1 (PyPoints (map (\<lambda>i. rows ! i) idxs) (pc_device self)) = (Inr x, w2) \<longrightarrow>
             result (ModelNetPointCloud_getitem L self idx w) = Inr x \<and>
             \<not> debugger_entered (ModelNetPointCloud_getitem L self idx w)"
    using ch tk assms(5)
    by (simp add: ModelNetPointCloud_getitem_def tb downsample_def tensor_to_def return_pts_def)
  show ?thesis
    by (rule exI[of _ idxs], rule exI[of _ w1]) (intro conjI d l b n s c)
qed

lemma demo_choice: "choice_without_replacement demo_lib"
  unfolding choice_without_replacement_def demo_lib_def by auto

theorem access_after_caching_witness:
  "choice_without_replacement demo_lib \<and>
   pc_sample_cache (self_after (ModelNetPointCloud_getitem demo_lib (demo_PointCloud 2 4) 0 0)) 0
     = Some ([0, 1, 2, 3], ''cpu'') \<and>
   (0::int) \<le> 2 \<and> (2::int) \<le> int (length [0, 1, 2, 3 :: int]) \<and> device_ok demo_lib ''cpu'' \<and>
   result (ModelNetPointCloud_getitem demo_lib
             (self_after (ModelNetPointCloud_getitem demo_lib (demo_PointCloud 2 4) 0 0)) 0 2)
     = Inr (PyPoints [3, 2] ''cpu'') \<and>
   (\<exists>idxs. distinct idxs \<and> length idxs = 2 \<and>
      result (ModelNetPointCloud_getitem demo_lib
                (self_after (ModelNetPointCloud_getitem demo_lib (demo_PointCloud 2 4) 0 0)) 0 2)
        = Inr (PyPoints (map (\<lambda>i. [0, 1, 2, 3] ! i) idxs) ''cpu''))"
proof -
  let ?s = "self_after (ModelNetPointCloud_getitem demo_lib (demo_PointCloud 2 4) 0 0)"
  have h: "pc_sample_cache ?s 0 = Some ([0, 1, 2, 3], ''cpu'')"
    by (simp add: demo_access_defs)
  have np: "pc_num_points ?s = 2" "pc_device ?s = ''cpu''" "pc_transform ?s = None"
    by (simp_all add: getitem_self_after demo_PointCloud_def)
  have dv: "device_ok demo_lib ''cpu''" by (simp add: demo_lib_def)
  have r: "result (ModelNetPointCloud_getitem demo_lib ?s 0 2) = Inr (PyPoints [3, 2] ''cpu'')"
    by (simp add: demo_access_defs)
  from access_after_caching [OF demo_choice h, of 2] np dv
  have "\<exists>idxs. distinct idxs \<and> length idxs = 2 \<and>
          result (ModelNetPointCloud_getitem demo_lib ?s 0 2)
            = Inr (PyPoints (map (\<lambda>i. [0, 1, 2, 3] ! i) idxs) ''cpu'')"
    by simp blast
  with demo_choice h dv r show ?thesis by simp
qed

text \<open>
  Claim C5 as stated fails on this run of the small data set, where \<^verbatim>\<open>num_points\<close>
  exceeds the size of the cached cloud.
  With \<^verbatim>\<open>num_points = 3\<close> and \<^verbatim>\<open>sample_points = 2\<close> the first access of index 0 caches
  a cloud of two points; the second access finds it cached, \<^verbatim>\<open>np.random.choice(2, size=3, replace=False)\<close>
  raises, the handler runs, and \<^verbatim>\<open>return pts\<close> raises \<^verbatim>\<open>UnboundLocalError\<close>: no cloud
  of three points is returned.
\<close>

theorem access_after_caching_counterexample:
  "ModelNetPointCloud_init demo_fs ''/d'' (Some ''train'') None ''cpu'' None 3 2
     = Inr (demo_PointCloud 3 2) \<and>
   pc_sample_cache (self_after (ModelNetPointCloud_getitem demo_lib (demo_PointCloud 3 2) 0 0)) 0
     = Some ([0, 1], ''cpu'') \<and>
   result (ModelNetPointCloud_getitem demo_lib
             (self_after (ModelNetPointCloud_getitem demo_lib (demo_PointCloud 3 2) 0 0)) 0
             (world (ModelNetPointCloud_getitem demo_lib (demo_PointCloud 3 2) 0 0)))
     = Inl (UnboundLocalError unbound_pts_message)"
  by (simp add: demo_PointCloud_init) (simp add: demo_access_defs)

subsection \<open>What an access returns\<close>











end
